theory Spec2Isabelle
  imports Main "HOL-Library.AList"
begin

section \<open>The relay middleware: data model\<close>

text \<open>
  This theory embeds the class \<^verbatim>\<open>RelayMiddleware\<close> (the relay between the chat platform
  and the upstream agent): its token store, its service-token cache, its connection
  registry, its clean-up pass and the chat turn \<^verbatim>\<open>sendMessage\<close> with the consent and
  sign-in card handlers.

  Conventions of the embedding.
  \<^item> A JavaScript \<^verbatim>\<open>Map\<close> is an association list in insertion order:
    \<^verbatim>\<open>get\<close> is \<open>map_of\<close>, \<^verbatim>\<open>set\<close> is \<open>AList.update\<close> (replace in place, else append),
    \<^verbatim>\<open>delete\<close> is \<open>AList.delete\<close>.
  \<^item> \<^verbatim>\<open>null\<close> and \<^verbatim>\<open>undefined\<close> are \<open>None\<close>; a string is falsy when it is empty and a number
    when it is zero, and the truthiness tests of the source are written out.
  \<^item> Time stamps are integers (milliseconds). Every \<^verbatim>\<open>Date.now()\<close> is a separate read of
    the clock. The \<^verbatim>\<open>console.log\<close> statements are left out, except where building
    their text can throw: \<^verbatim>\<open>new Date(t).toISOString()\<close> throws a range error when \<open>t\<close> is
    not a time value. The expiry of a user credential is read from the credential and
    can be any number, so \<open>getUserToken\<close> has these errors. The dates formatted by
    \<^verbatim>\<open>getServiceToken\<close> are clock readings and the expiration date of the provider's
    answer; they are taken to be valid dates.
  \<^item> The collaborators (clock, JWT payload decoder, identity provider, upstream agent,
    chat client) are fields of an environment record. A call to a collaborator is
    answered by the number of calls made to it before, and is recorded in the state, so
    that "was not invoked" is a statement about the state.
  \<^item> A thrown exception or rejected promise is \<open>Inl\<close> of an \<open>error\<close>.
\<close>

datatype error = TypeError string | RangeError string | Rejected string

definition truthy :: "string option \<Rightarrow> bool" where
  "truthy s = (case s of None \<Rightarrow> False | Some t \<Rightarrow> t \<noteq> [])"

text \<open>
  The result of \<^verbatim>\<open>JSON.parse(Buffer.from(segment, 'base64').toString())\<close> followed by
  reading \<^verbatim>\<open>payload.exp\<close>: either the statement throws (no JSON, or the payload is
  \<^verbatim>\<open>null\<close>), or the payload has a numeric \<^verbatim>\<open>exp\<close> claim in seconds, or none.
\<close>

datatype decoded = DecodeFails | Payload "int option"

record tokenData =
  token :: string
  storedAt :: int
  lastUsed :: int
  expiresAt :: "int option"

datatype token_entry = Legacy string | Structured tokenData

record service_cache =
  cache_token :: "string option"
  cache_expiresAt :: int

record msal_response =
  r_accessToken :: string
  r_expiresOn :: "int option"

text \<open>
  A connection: \<open>client\<close> is the \<^verbatim>\<open>CopilotStudioClient\<close>, identified by the token it was
  constructed with; the opaque \<^verbatim>\<open>conversationActivity\<close> is never read and is left out.
\<close>

record connection =
  client :: string
  conversationId :: "string option"
  lastActivity :: int
  userId :: string

record button =
  b_type :: string
  b_value :: "string option"

record card_content =
  c_text :: "string option"
  c_buttons :: "button option list option"

record attachment =
  contentType :: string
  content :: "card_content option"

record activity =
  a_type :: string
  a_text :: "string option"
  a_name :: "string option"
  attachments :: "attachment list option"

record slack_message =
  ts :: string
  channel :: string

datatype slack_call = PostMessage string string | Update string string string

record env =
  Date_now :: "nat \<Rightarrow> int"
  decodePayload :: "string \<Rightarrow> decoded"
  acquireTokenByClientCredential :: "nat \<Rightarrow> error + msal_response option"
  startConversationAsync :: "nat \<Rightarrow> error + string option"
  askQuestionAsync :: "nat \<Rightarrow> error + activity list"
  chat_postMessage :: "nat \<Rightarrow> error + slack_message"
  chat_update :: "nat \<Rightarrow> error option"
  connectionTimeoutMs :: int

text \<open>
  The state: the three caches of the class and its optional chat client, then the
  record of the calls made so far (clock reads, identity-provider requests, the client
  token of every conversation start, the text and conversation id of every question
  sent upstream, the calls to the chat client).
\<close>

record world =
  activeConnections :: "(string \<times> connection) list"
  userTokens :: "(string \<times> token_entry) list"
  serviceTokenCache :: service_cache
  slackClient :: bool
  clock_reads :: nat
  msal_requests :: nat
  started :: "string list"
  asked :: "(string \<times> string option) list"
  slack_calls :: "slack_call list"

definition now_read :: "env \<Rightarrow> world \<Rightarrow> int \<times> world" where
  "now_read e w = (Date_now e (clock_reads w), w\<lparr>clock_reads := Suc (clock_reads w)\<rparr>)"

text \<open>
  A time value lies at most 8.64e15 milliseconds from the epoch; for any other number
  \<^verbatim>\<open>new Date(t).toISOString()\<close> throws \<^verbatim>\<open>RangeError: Invalid time value\<close>.
\<close>

definition valid_date :: "int \<Rightarrow> bool" where
  "valid_date t = (abs t \<le> 8640000000000000)"

definition invalidTimeValue :: error where
  "invalidTimeValue = RangeError ''Invalid time value''"

section \<open>Token store\<close>

text \<open>\<^verbatim>\<open>s.split('.')\<close>: the empty string splits into one empty part.\<close>

fun split_dot :: "string \<Rightarrow> string list" where
  "split_dot [] = [[]]"
| "split_dot (c # cs) =
     (if c = CHR ''.'' then [] # split_dot cs
      else (case split_dot cs of [] \<Rightarrow> [[c]] | p # ps \<Rightarrow> (c # p) # ps))"

text \<open>
  The expiration that \<^verbatim>\<open>storeUserToken\<close> extracts: three segments, a payload that
  decodes, and a truthy \<^verbatim>\<open>exp\<close>, converted to milliseconds; \<open>None\<close> otherwise, also when
  decoding throws.
\<close>

definition jwt_expiresAt :: "env \<Rightarrow> string \<Rightarrow> int option" where
  "jwt_expiresAt e accessTok =
     (let parts = split_dot accessTok in
      if length parts = 3 then
        (case decodePayload e (parts ! 1) of
           DecodeFails \<Rightarrow> None
         | Payload None \<Rightarrow> None
         | Payload (Some x) \<Rightarrow> if x \<noteq> 0 then Some (x * 1000) else None)
      else None)"

definition storeUserToken :: "env \<Rightarrow> string \<Rightarrow> string \<Rightarrow> world \<Rightarrow> world" where
  "storeUserToken e slackUserId accessTok w =
     (let ex = jwt_expiresAt e accessTok;
          (t1, w1) = now_read e w;
          (t2, w2) = now_read e w1;
          td = \<lparr>token = accessTok, storedAt = t1, lastUsed = t2, expiresAt = ex\<rparr>
      in w2\<lparr>userTokens := AList.update slackUserId (Structured td) (userTokens w2)\<rparr>)"

text \<open>
  \<^verbatim>\<open>getUserToken\<close>. On a legacy record the expiry check runs inside a \<^verbatim>\<open>try\<close>: when the
  date of an expired credential cannot be formatted, the error is thrown before the
  record is deleted and is caught, and the credential is returned; the same error in the
  log line of an unexpired credential changes nothing. On a structured record nothing
  catches the error: for an expired credential it is thrown before the record is
  deleted, for an unexpired one after \<^verbatim>\<open>lastUsed\<close> has been written.
\<close>

definition getUserToken ::
  "env \<Rightarrow> string \<Rightarrow> world \<Rightarrow> (error + string option) \<times> world" where
  "getUserToken e slackUserId w =
     (case map_of (userTokens w) slackUserId of
        None \<Rightarrow> (Inr None, w)
      | Some (Legacy s) \<Rightarrow>
          if s = [] then (Inr None, w)
          else
            (let parts = split_dot s in
             if length parts = 3 then
               (case decodePayload e (parts ! 1) of
                  DecodeFails \<Rightarrow> (Inr (Some s), w)
                | Payload None \<Rightarrow> (Inr (Some s), w)
                | Payload (Some x) \<Rightarrow>
                    if x \<noteq> 0 then
                      (let (now, w1) = now_read e w in
                       if now > x * 1000 then
                         (if valid_date (x * 1000)
                          then (Inr None,
                                w1\<lparr>userTokens := AList.delete slackUserId (userTokens w1)\<rparr>)
                          else (Inr (Some s), w1))
                       else (Inr (Some s), w1))
                    else (Inr (Some s), w))
             else (Inr (Some s), w))
      | Some (Structured td) \<Rightarrow>
          (let (now, w1) = now_read e w in
           if (case expiresAt td of None \<Rightarrow> False | Some x \<Rightarrow> x \<noteq> 0 \<and> now > x)
           then
             (if valid_date (the (expiresAt td))
              then (Inr None, w1\<lparr>userTokens := AList.delete slackUserId (userTokens w1)\<rparr>)
              else (Inl invalidTimeValue, w1))
           else
             (let (t2, w2) = now_read e w1;
                  td' = td\<lparr>lastUsed := t2\<rparr>;
                  w3 = w2\<lparr>userTokens :=
                          AList.update slackUserId (Structured td') (userTokens w2)\<rparr>
              in if (case expiresAt td of None \<Rightarrow> True | Some x \<Rightarrow> x = 0 \<or> valid_date x)
                 then (Inr (Some (token td')), w3)
                 else (Inl invalidTimeValue, w3))))"

definition revokeUserToken :: "string \<Rightarrow> world \<Rightarrow> bool \<times> world" where
  "revokeUserToken slackUserId w =
     (map_of (userTokens w) slackUserId \<noteq> None,
      w\<lparr>userTokens := AList.delete slackUserId (userTokens w)\<rparr>)"

section \<open>Service-token cache\<close>

definition cleared_cache :: service_cache where
  "cleared_cache = \<lparr>cache_token = None, cache_expiresAt = 0\<rparr>"

definition cache_valid :: "service_cache \<Rightarrow> int \<Rightarrow> bool" where
  "cache_valid c now = (truthy (cache_token c) \<and> now < cache_expiresAt c - 300000)"

text \<open>
  The provider's answer \<^verbatim>\<open>null\<close> makes \<^verbatim>\<open>response.accessToken\<close> throw a type error inside
  the \<^verbatim>\<open>try\<close>; like a rejected request it clears the cache and is thrown again.
\<close>

definition getServiceToken :: "env \<Rightarrow> world \<Rightarrow> (error + string) \<times> world" where
  "getServiceToken e w =
     (let (now, w1) = now_read e w in
      if cache_valid (serviceTokenCache w1) now
      then (Inr (the (cache_token (serviceTokenCache w1))), w1)
      else
        (let w2 = w1\<lparr>msal_requests := Suc (msal_requests w1)\<rparr> in
         case acquireTokenByClientCredential e (msal_requests w1) of
           Inl err \<Rightarrow> (Inl err, w2\<lparr>serviceTokenCache := cleared_cache\<rparr>)
         | Inr None \<Rightarrow>
             (Inl (TypeError ''Cannot read properties of null''),
              w2\<lparr>serviceTokenCache := cleared_cache\<rparr>)
         | Inr (Some r) \<Rightarrow>
             (Inr (r_accessToken r),
              w2\<lparr>serviceTokenCache :=
                   \<lparr>cache_token = Some (r_accessToken r),
                    cache_expiresAt =
                      (case r_expiresOn r of Some t \<Rightarrow> t | None \<Rightarrow> now + 3600000)\<rparr>\<rparr>)))"

section \<open>Connection registry\<close>

definition createAgentsConnection ::
  "env \<Rightarrow> string \<Rightarrow> world \<Rightarrow> (error + string option) \<times> world" where
  "createAgentsConnection e cl w =
     (let w1 = w\<lparr>started := started w @ [cl]\<rparr> in
      case startConversationAsync e (length (started w)) of
        Inl err \<Rightarrow> (Inl err, w1)
      | Inr cid \<Rightarrow> (Inr cid, w1))"

definition createUserConnection ::
  "env \<Rightarrow> string \<Rightarrow> string option \<Rightarrow> world \<Rightarrow> (error + connection) \<times> world" where
  "createUserConnection e uid userToken w =
     (case (if truthy userToken then (Inr (the userToken), w) else getServiceToken e w) of
        (Inl err, w1) \<Rightarrow> (Inl err, w1)
      | (Inr tok, w1) \<Rightarrow>
          (case createAgentsConnection e tok w1 of
             (Inl err, w2) \<Rightarrow> (Inl err, w2)
           | (Inr cid, w2) \<Rightarrow>
               (let (now, w3) = now_read e w2;
                    conn = \<lparr>client = tok, conversationId = cid, lastActivity = now,
                            userId = uid\<rparr>
                in (Inr conn,
                    w3\<lparr>activeConnections := AList.update uid conn (activeConnections w3)\<rparr>))))"

definition clearUserConnection :: "string \<Rightarrow> world \<Rightarrow> bool \<times> world" where
  "clearUserConnection uid w =
     (map_of (activeConnections w) uid \<noteq> None,
      w\<lparr>activeConnections := AList.delete uid (activeConnections w)\<rparr>)"

definition newConversation ::
  "env \<Rightarrow> string \<Rightarrow> world \<Rightarrow> (error + connection) \<times> world" where
  "newConversation e uid w =
     createUserConnection e uid None
       (w\<lparr>activeConnections := AList.delete uid (activeConnections w)\<rparr>)"

section \<open>Clean-up\<close>

text \<open>
  The two \<^verbatim>\<open>for ... of\<close> loops visit the entries of the map and delete the entry being
  visited; each is a fold over the entries as they stood when the loop began. The
  configured timeout \<^verbatim>\<open>config.app.connectionTimeoutMs\<close> is taken to be a number.
\<close>

definition stale :: "int \<Rightarrow> int \<Rightarrow> connection \<Rightarrow> bool" where
  "stale now maxAge c = (now - lastActivity c > maxAge)"

definition sweep_connections ::
  "int \<Rightarrow> int \<Rightarrow> (string \<times> connection) list \<Rightarrow> (string \<times> connection) list" where
  "sweep_connections now maxAge conns =
     fold (\<lambda>(uid, c) m. if stale now maxAge c then AList.delete uid m else m) conns conns"

definition tokenMaxAge :: int where
  "tokenMaxAge = 24 * 60 * 60 * 1000"

definition shouldCleanup ::
  "int \<Rightarrow> (string \<times> connection) list \<Rightarrow> string \<Rightarrow> token_entry \<Rightarrow> bool" where
  "shouldCleanup now conns uid entry =
     (case entry of
        Legacy s \<Rightarrow>
          (case map_of conns uid of
             None \<Rightarrow> True
           | Some c \<Rightarrow> now - lastActivity c > tokenMaxAge)
      | Structured td \<Rightarrow> lastUsed td \<noteq> 0 \<and> now - lastUsed td > tokenMaxAge)"

definition sweep_tokens ::
  "int \<Rightarrow> (string \<times> connection) list \<Rightarrow> (string \<times> token_entry) list
    \<Rightarrow> (string \<times> token_entry) list" where
  "sweep_tokens now conns toks =
     fold (\<lambda>(uid, entry) m. if shouldCleanup now conns uid entry then AList.delete uid m else m)
       toks toks"

definition cleanup :: "env \<Rightarrow> world \<Rightarrow> world" where
  "cleanup e w =
     (let (now, w1) = now_read e w;
          conns = sweep_connections now (connectionTimeoutMs e) (activeConnections w1);
          toks = sweep_tokens now conns (userTokens w1);
          cache = (if truthy (cache_token (serviceTokenCache w1))
                      \<and> now > cache_expiresAt (serviceTokenCache w1)
                   then cleared_cache else serviceTokenCache w1)
      in w1\<lparr>activeConnections := conns, userTokens := toks, serviceTokenCache := cache\<rparr>)"

section \<open>Response fragments\<close>

definition consentCardName :: string where
  "consentCardName = ''connectors/consentCard''"

definition oauthCardType :: string where
  "oauthCardType = ''application/vnd.microsoft.card.oauth''"

text \<open>\<^verbatim>\<open>activity.type === 'message' && activity.text\<close>\<close>

definition is_text_message :: "activity \<Rightarrow> bool" where
  "is_text_message a = (a_type a = ''message'' \<and> truthy (a_text a))"

text \<open>\<^verbatim>\<open>activity.attachments?.some(att => att.contentType === '...card.oauth')\<close>\<close>

definition isSignInCard :: "activity \<Rightarrow> bool" where
  "isSignInCard a =
     (case attachments a of
        None \<Rightarrow> False
      | Some atts \<Rightarrow> list_ex (\<lambda>att. contentType att = oauthCardType) atts)"

text \<open>
  One round of the \<^verbatim>\<open>forEach\<close> that classifies the replies; the accumulator is
  \<^verbatim>\<open>(responseText, consentCard, userSignInCard)\<close>.
\<close>

definition classify_step ::
  "activity \<Rightarrow> string \<times> activity option \<times> activity option
    \<Rightarrow> string \<times> activity option \<times> activity option" where
  "classify_step a acc =
     (case acc of (responseText, consentCard, userSignInCard) \<Rightarrow>
        if a_type a = ''message'' \<and> truthy (a_text a)
        then (responseText @ the (a_text a) @ '' '', consentCard, userSignInCard)
        else if a_name a = Some consentCardName
        then (responseText, Some a, userSignInCard)
        else if a_type a = ''message'' \<and> \<not> truthy (a_text a)
        then (if isSignInCard a
              then (responseText, consentCard, Some a)
              else (responseText, consentCard, userSignInCard))
        else (responseText, consentCard, userSignInCard))"

definition classify :: "activity list \<Rightarrow> string \<times> activity option \<times> activity option" where
  "classify replies = fold classify_step replies ([], None, None)"

text \<open>
  \<^verbatim>\<open>String.prototype.trim\<close>: the white space and line terminators among the code units
  below 256 are tab, line feed, vertical tab, form feed, carriage return, space and the
  no-break space.
\<close>

definition isWhiteSpace :: "char \<Rightarrow> bool" where
  "isWhiteSpace c =
     (c \<in> {CHR 0x09, CHR 0x0A, CHR 0x0B, CHR 0x0C, CHR 0x0D, CHR 0x20, CHR 0xA0})"

definition trim :: "string \<Rightarrow> string" where
  "trim s = rev (dropWhile isWhiteSpace (rev (dropWhile isWhiteSpace s)))"

section \<open>Sign-in card\<close>

definition signInNotFound :: string where
  "signInNotFound =
     ''I need you to sign in, but I could not find the sign-in link. Please try again.''"

definition signInLinkMissing :: string where
  "signInLinkMissing =
     ''I need you to sign in, but the link is missing. Please contact support.''"

definition signInError :: string where
  "signInError =
     ''Sorry, I encountered an error while trying to get you signed in. Please try again.''"

definition defaultPrompt :: string where
  "defaultPrompt = ''Please sign in to continue.''"

text \<open>
  \<^verbatim>\<open>buttons.find(b => b.type === 'signin')\<close>: the first button of type \<^verbatim>\<open>signin\<close>. An entry
  \<^verbatim>\<open>null\<close> that the search reaches makes \<^verbatim>\<open>b.type\<close> throw.
\<close>

fun find_signin :: "button option list \<Rightarrow> error + button option" where
  "find_signin [] = Inr None"
| "find_signin (None # bs) = Inl (TypeError ''Cannot read properties of null'')"
| "find_signin (Some b # bs) = (if b_type b = ''signin'' then Inr (Some b) else find_signin bs)"

text \<open>The Slack message: prompt, blank line, and the link in Slack's link markup.\<close>

definition signInMessage :: "string \<Rightarrow> string \<Rightarrow> string" where
  "signInMessage promptText signInUrl =
     promptText @ [CHR 0x0A, CHR 0x0A] @ ''Click here to sign in: <'' @ signInUrl @ ''|Sign In>''"

text \<open>\<^verbatim>\<open>userSignInCard.attachments?.[0]\<close>\<close>

definition first_attachment :: "activity \<Rightarrow> attachment option" where
  "first_attachment a =
     (case attachments a of
        None \<Rightarrow> None
      | Some [] \<Rightarrow> None
      | Some (att # rest) \<Rightarrow> Some att)"

text \<open>\<^verbatim>\<open>cardContent?.buttons\<close> and \<^verbatim>\<open>cardContent.text\<close> of an attachment.\<close>

definition card_buttons :: "attachment \<Rightarrow> button option list option" where
  "card_buttons att =
     (case content att of
        None \<Rightarrow> None
      | Some cardContent \<Rightarrow> c_buttons cardContent)"

definition card_text :: "attachment \<Rightarrow> string option" where
  "card_text att =
     (case content att of
        None \<Rightarrow> None
      | Some cardContent \<Rightarrow> c_text cardContent)"

text \<open>The body of the \<^verbatim>\<open>try\<close> block of \<^verbatim>\<open>handleUserSignInCard\<close>.\<close>

definition handleUserSignInCard_try :: "activity \<Rightarrow> error + string" where
  "handleUserSignInCard_try userSignInCard =
     (case first_attachment userSignInCard of
        None \<Rightarrow> Inr signInNotFound
      | Some att \<Rightarrow>
          if contentType att \<noteq> oauthCardType then Inr signInNotFound
          else
            (case (case card_buttons att of
                     None \<Rightarrow> Inr None
                   | Some bs \<Rightarrow> find_signin bs) of
               Inl err \<Rightarrow> Inl err
             | Inr None \<Rightarrow> Inr signInLinkMissing
             | Inr (Some signInButton) \<Rightarrow>
                 if \<not> truthy (b_value signInButton) then Inr signInLinkMissing
                 else
                   (let signInUrl = the (b_value signInButton);
                        promptText = (if truthy (card_text att) then the (card_text att)
                                      else defaultPrompt)
                    in Inr (signInMessage promptText signInUrl))))"

definition handleUserSignInCard :: "activity \<Rightarrow> string" where
  "handleUserSignInCard userSignInCard =
     (case handleUserSignInCard_try userSignInCard of
        Inl err \<Rightarrow> signInError
      | Inr s \<Rightarrow> s)"

section \<open>Consent card\<close>

definition consentPayload :: string where
  \<open>consentPayload =
     ''{"type":"message","channelData":{"postBack":true,"enableDiagnostics":true},"value":{"action":"Allow","id":"submit","shouldAwaitUserInput":true}}''\<close>

definition askQuestion ::
  "env \<Rightarrow> string \<Rightarrow> string option \<Rightarrow> world \<Rightarrow> (error + activity list) \<times> world" where
  "askQuestion e txt cid w =
     (askQuestionAsync e (length (asked w)), w\<lparr>asked := asked w @ [(txt, cid)]\<rparr>)"

text \<open>
  The user id is optional because the nested call passes none. The registry is only
  ever written under the string ids the callers supply, so \<^verbatim>\<open>get(undefined)\<close> finds no
  entry. The nested call is not awaited: what it returns is dropped.
\<close>

definition lookup_connection :: "world \<Rightarrow> string option \<Rightarrow> connection option" where
  "lookup_connection w uid = (case uid of None \<Rightarrow> None | Some u \<Rightarrow> map_of (activeConnections w) u)"

function handleConsentCardResponse ::
  "env \<Rightarrow> activity \<Rightarrow> string option \<Rightarrow> world \<Rightarrow> (error + unit) \<times> world" where
  "handleConsentCardResponse e act uid w =
     (case lookup_connection w uid of
        None \<Rightarrow> (Inr (), w)
      | Some conn \<Rightarrow>
          (case askQuestion e consentPayload (conversationId conn) w of
             (Inl err, w1) \<Rightarrow> (Inl err, w1)
           | (Inr responses, w1) \<Rightarrow>
               (Inr (),
                fold (\<lambda>a w'. if a_name a = Some consentCardName
                              then snd (handleConsentCardResponse e a None w')
                              else w')
                  responses w1)))"
  by pat_completeness auto
termination
  by (relation "measure (\<lambda>(e, act, uid, w). case uid of None \<Rightarrow> 0 | Some u \<Rightarrow> Suc 0)")
     (auto simp: lookup_connection_def split: option.splits)

section \<open>The chat turn\<close>

definition consentApprovalSent :: string where
  "consentApprovalSent =
     ''I've sent the consent approval. Please wait a moment for the process to complete.''"

definition noResponse :: string where
  "noResponse = ''No response from Copilot Studio''"

definition errorApology :: string where
  "errorApology = ''Sorry, I encountered an error processing your message. Please try again.''"

text \<open>
  The value of \<^verbatim>\<open>finalResponse\<close> after the classification of the replies: the primary
  reply, then the sign-in text when a sign-in card was captured.
\<close>

definition finalResponse ::
  "env \<Rightarrow> string \<Rightarrow> activity list \<Rightarrow> world \<Rightarrow> (error + string) \<times> world" where
  "finalResponse e uid replies w =
     (case classify replies of (responseText, consentCard, userSignInCard) \<Rightarrow>
        (case (if trim responseText \<noteq> [] then (Inr (trim responseText), w)
               else (case consentCard of
                       Some consent \<Rightarrow>
                         (case handleConsentCardResponse e consent (Some uid) w of
                            (Inl err, w1) \<Rightarrow> (Inl err, w1)
                          | (Inr u, w1) \<Rightarrow> (Inr consentApprovalSent, w1))
                     | None \<Rightarrow> (Inr noResponse, w))) of
           (Inl err, w1) \<Rightarrow> (Inl err, w1)
         | (Inr primary, w1) \<Rightarrow>
             (case userSignInCard of
                None \<Rightarrow> (Inr primary, w1)
              | Some signIn \<Rightarrow> (Inr (primary @ '' '' @ handleUserSignInCard signIn), w1))))"

text \<open>\<^verbatim>\<open>userId.replace('slack_', '')\<close>: the first occurrence is removed.\<close>

fun remove_slack_prefix :: "string \<Rightarrow> string" where
  "remove_slack_prefix [] = []"
| "remove_slack_prefix (c # cs) =
     (if take 6 (c # cs) = ''slack_'' then drop 6 (c # cs) else c # remove_slack_prefix cs)"

definition postThinkingMessage :: "env \<Rightarrow> string \<Rightarrow> world \<Rightarrow> slack_message option \<times> world" where
  "postThinkingMessage e uid w =
     (if \<not> slackClient w then (None, w)
      else
        (let w1 = w\<lparr>slack_calls := slack_calls w
                        @ [PostMessage (remove_slack_prefix uid) '':thinking_face: Thinking...'']\<rparr>
         in case chat_postMessage e (length (slack_calls w)) of
              Inl err \<Rightarrow> (None, w1)
            | Inr result \<Rightarrow> (Some result, w1)))"

text \<open>
  When the update is rejected the text is posted as a new message; a failure of that
  post is caught as well.
\<close>

definition updateThinkingMessage ::
  "env \<Rightarrow> string \<Rightarrow> string \<Rightarrow> string \<Rightarrow> world \<Rightarrow> world" where
  "updateThinkingMessage e channelId messageTs responseText w =
     (if \<not> slackClient w then w
      else
        (let w1 = w\<lparr>slack_calls := slack_calls w @ [Update channelId messageTs responseText]\<rparr>
         in case chat_update e (length (slack_calls w)) of
              None \<Rightarrow> w1
            | Some err \<Rightarrow>
                w1\<lparr>slack_calls := slack_calls w1 @ [PostMessage channelId responseText]\<rparr>))"

text \<open>\<^verbatim>\<open>thinkingMessage?.ts && thinkingMessage?.channel\<close>, then the update.\<close>

definition update_if_posted ::
  "env \<Rightarrow> slack_message option \<Rightarrow> string \<Rightarrow> world \<Rightarrow> world" where
  "update_if_posted e thinkingMessage responseText w =
     (case thinkingMessage of
        None \<Rightarrow> w
      | Some tm \<Rightarrow>
          if ts tm \<noteq> [] \<and> channel tm \<noteq> []
          then updateThinkingMessage e (channel tm) (ts tm) responseText w
          else w)"

text \<open>
  The \<^verbatim>\<open>try\<close> block of \<^verbatim>\<open>sendMessage\<close> from the look-up of the connection to the value
  of \<^verbatim>\<open>finalResponse\<close>.
\<close>

definition sendMessage_try ::
  "env \<Rightarrow> string \<Rightarrow> string \<Rightarrow> string option \<Rightarrow> world \<Rightarrow> (error + string) \<times> world" where
  "sendMessage_try e uid messageText userToken w =
     (case (case map_of (activeConnections w) uid of
              Some conn \<Rightarrow> (Inr conn, w)
            | None \<Rightarrow> createUserConnection e uid userToken w) of
        (Inl err, w1) \<Rightarrow> (Inl err, w1)
      | (Inr conn, w1) \<Rightarrow>
          (case askQuestion e messageText (conversationId conn) w1 of
             (Inl err, w2) \<Rightarrow> (Inl err, w2)
           | (Inr replies, w2) \<Rightarrow> finalResponse e uid replies w2))"

text \<open>
  \<^verbatim>\<open>sendMessage\<close> returns the \<^verbatim>\<open>text\<close> property of its result object. The connection
  object is the one held by the registry, so the assignment to its \<^verbatim>\<open>lastActivity\<close>
  changes the registry's entry.
\<close>

definition sendMessage ::
  "env \<Rightarrow> string \<Rightarrow> string \<Rightarrow> string option \<Rightarrow> world \<Rightarrow> (error + string) \<times> world" where
  "sendMessage e uid messageText userToken w =
     (case postThinkingMessage e uid w of (thinkingMessage, w0) \<Rightarrow>
        (case sendMessage_try e uid messageText userToken w0 of
           (Inr final, w1) \<Rightarrow>
             (let w2 = update_if_posted e thinkingMessage final w1;
                  (now, w3) = now_read e w2
              in (Inr [],
                  w3\<lparr>activeConnections :=
                       AList.map_entry uid (\<lambda>c. c\<lparr>lastActivity := now\<rparr>) (activeConnections w3)\<rparr>))
         | (Inl err, w1) \<Rightarrow> (Inl err, update_if_posted e thinkingMessage errorApology w1)))"

section \<open>Overlapping turns\<close>

text \<open>
  A turn runs alone between two of its \<^verbatim>\<open>await\<close>s; while it waits, other turns run. From
  the look-up of the session on, a turn consists of three pieces: the look-up itself,
  the creation of a session when the look-up found none, and the question with the
  resolution of the replies. Between the look-up and the moment \<^verbatim>\<open>createUserConnection\<close>
  stores the session, the turn waits for the credential and for the new conversation.
  Run one after the other, the pieces are \<open>sendMessage_try\<close>.
\<close>

definition turn_lookup :: "string \<Rightarrow> world \<Rightarrow> connection option" where
  "turn_lookup uid w = map_of (activeConnections w) uid"

definition turn_connect ::
  "env \<Rightarrow> string \<Rightarrow> string option \<Rightarrow> connection option \<Rightarrow> world
     \<Rightarrow> (error + connection) \<times> world" where
  "turn_connect e uid userToken found w =
     (case found of
        Some conn \<Rightarrow> (Inr conn, w)
      | None \<Rightarrow> createUserConnection e uid userToken w)"

definition turn_send ::
  "env \<Rightarrow> string \<Rightarrow> string \<Rightarrow> connection \<Rightarrow> world \<Rightarrow> (error + string) \<times> world" where
  "turn_send e uid messageText conn w =
     (case askQuestion e messageText (conversationId conn) w of
        (Inl err, w2) \<Rightarrow> (Inl err, w2)
      | (Inr replies, w2) \<Rightarrow> finalResponse e uid replies w2)"

text \<open>
  Two turns A and B of one user, scheduled so that B makes its look-up while A waits
  for its new conversation: both look-ups, the creation of A, the creation of B, the
  question of A, the question of B. The result is the pair of sessions the two turns
  hold (when both obtained one) and the final state.
\<close>

definition two_turns_interleaved ::
  "env \<Rightarrow> string \<Rightarrow> string \<Rightarrow> string option \<Rightarrow> string \<Rightarrow> string option \<Rightarrow> world
     \<Rightarrow> (connection \<times> connection) option \<times> world" where
  "two_turns_interleaved e uid msgA tokA msgB tokB w =
     (let foundA = turn_lookup uid w;
          foundB = turn_lookup uid w
      in case turn_connect e uid tokA foundA w of
           (Inl err, w1) \<Rightarrow> (None, w1)
         | (Inr connA, w1) \<Rightarrow>
             (case turn_connect e uid tokB foundB w1 of
                (Inl err, w2) \<Rightarrow> (None, w2)
              | (Inr connB, w2) \<Rightarrow>
                  (let (rA, w3) = turn_send e uid msgA connA w2;
                       (rB, w4) = turn_send e uid msgB connB w3
                   in (Some (connA, connB), w4))))"

section \<open>Notions used in the statements\<close>

text \<open>
  What the classification captures, said without the loop: the texts of the text
  messages in order, the last consent request and the last sign-in card. A fragment
  counts as a consent request, or as a sign-in card, only if no earlier branch of the
  \<^verbatim>\<open>if\<close> chain took it.
\<close>

definition texts :: "activity list \<Rightarrow> string list" where
  "texts replies = map (\<lambda>a. the (a_text a)) (filter is_text_message replies)"

definition is_consent :: "activity \<Rightarrow> bool" where
  "is_consent a = (\<not> is_text_message a \<and> a_name a = Some consentCardName)"

definition is_signin :: "activity \<Rightarrow> bool" where
  "is_signin a =
     (\<not> is_text_message a \<and> a_name a \<noteq> Some consentCardName \<and> a_type a = ''message''
      \<and> isSignInCard a)"

definition last_option :: "'a list \<Rightarrow> 'a option" where
  "last_option xs = (if xs = [] then None else Some (last xs))"

text \<open>The strings of a list, separated by single spaces.\<close>

fun join_space :: "string list \<Rightarrow> string" where
  "join_space [] = []"
| "join_space [t] = t"
| "join_space (t # u # ss) = t @ '' '' @ join_space (u # ss)"

text \<open>An entry of a button list that \<^verbatim>\<open>find\<close> passes over: a button of another type.\<close>

definition other_button :: "button option \<Rightarrow> bool" where
  "other_button x = (case x of None \<Rightarrow> False | Some b \<Rightarrow> b_type b \<noteq> ''signin'')"

text \<open>
  The outcome of a turn's first steps, read off the answers of the collaborators. The
  credential of a new session is the user's credential when one is supplied, else the
  cached service credential while it is valid, else the answer of the identity
  provider. The session of a turn is the one the registry holds for the user, else the
  one created with that credential on the conversation the upstream starts; its
  \<^verbatim>\<open>lastActivity\<close> is the next clock reading (the look-up of the service credential
  reads the clock once before).
\<close>

definition credential_outcome :: "env \<Rightarrow> string option \<Rightarrow> world \<Rightarrow> error + string" where
  "credential_outcome e userToken w =
     (if truthy userToken then Inr (the userToken)
      else if cache_valid (serviceTokenCache w) (Date_now e (clock_reads w))
      then Inr (the (cache_token (serviceTokenCache w)))
      else
        (case acquireTokenByClientCredential e (msal_requests w) of
           Inl err \<Rightarrow> Inl err
         | Inr None \<Rightarrow> Inl (TypeError ''Cannot read properties of null'')
         | Inr (Some r) \<Rightarrow> Inr (r_accessToken r)))"

definition session_outcome ::
  "env \<Rightarrow> string \<Rightarrow> string option \<Rightarrow> world \<Rightarrow> error + connection" where
  "session_outcome e uid userToken w =
     (case map_of (activeConnections w) uid of
        Some c \<Rightarrow> Inr c
      | None \<Rightarrow>
          (case credential_outcome e userToken w of
             Inl err \<Rightarrow> Inl err
           | Inr t \<Rightarrow>
               (case startConversationAsync e (length (started w)) of
                  Inl err \<Rightarrow> Inl err
                | Inr cid \<Rightarrow>
                    Inr \<lparr>client = t, conversationId = cid,
                         lastActivity =
                           Date_now e (if truthy userToken then clock_reads w
                                       else Suc (clock_reads w)),
                         userId = uid\<rparr>)))"

section \<open>The specification's wording, for comparison\<close>

text \<open>
  The sign-in text as the specification words it, for comparison with
  \<open>handleUserSignInCard\<close>: the not-found message when the first attachment is missing or
  not an OAuth card; the link-missing message when no sign-in button with a value
  exists; otherwise the card's text, a blank line and the link of that button.
\<close>

definition claimed_signInText :: "activity \<Rightarrow> string" where
  "claimed_signInText a =
     (case first_attachment a of
        None \<Rightarrow> signInNotFound
      | Some att \<Rightarrow>
          if contentType att \<noteq> oauthCardType then signInNotFound
          else
            (case find (\<lambda>b. b_type b = ''signin'' \<and> truthy (b_value b))
                    (List.map_filter (\<lambda>x. x)
                       (case card_buttons att of None \<Rightarrow> [] | Some bs \<Rightarrow> bs)) of
               None \<Rightarrow> signInLinkMissing
             | Some b \<Rightarrow>
                 signInMessage (case card_text att of None \<Rightarrow> [] | Some t \<Rightarrow> t)
                   (the (b_value b))))"

text \<open>
  The primary reply as the specification words it, for comparison with \<open>finalResponse\<close>:
  the space-separated texts when that string is not empty, else the approval-sent text
  when a consent request was captured, else the no-response text.
\<close>

definition claimed_primary_reply :: "activity list \<Rightarrow> string" where
  "claimed_primary_reply replies =
     (if join_space (texts replies) \<noteq> [] then join_space (texts replies)
      else if filter is_consent replies \<noteq> [] then consentApprovalSent
      else noResponse)"

section \<open>Example environments and states\<close>

text \<open>
  Concrete fragments, collaborators and states on which the theorems below are
  instantiated: a consent request, a message whose text is one space, a message saying
  \<open>Hello\<close>, and a sign-in card whose first sign-in button has no value and whose second
  one has.
\<close>

definition ex_consent :: activity where
  "ex_consent =
     \<lparr>a_type = ''event'', a_text = None, a_name = Some ''connectors/consentCard'',
      attachments = None\<rparr>"

definition ex_blank :: activity where
  "ex_blank = \<lparr>a_type = ''message'', a_text = Some '' '', a_name = None, attachments = None\<rparr>"

definition ex_hello :: activity where
  "ex_hello = \<lparr>a_type = ''message'', a_text = Some ''Hello'', a_name = None, attachments = None\<rparr>"

definition ex_signin_card :: activity where
  "ex_signin_card =
     \<lparr>a_type = ''message'', a_text = None, a_name = None,
      attachments = Some
        [\<lparr>contentType = ''application/vnd.microsoft.card.oauth'',
          content = Some
            \<lparr>c_text = Some ''Sign in'',
             c_buttons = Some
               [Some \<lparr>b_type = ''signin'', b_value = None\<rparr>,
                Some \<lparr>b_type = ''signin'', b_value = Some ''https://login''\<rparr>]\<rparr>\<rparr>]\<rparr>"

text \<open>
  The clock of \<open>ex_env\<close> shows 1000 ms at the first read and one more at each later read.
  Its decoder reads the segment \<open>p0\<close> as a payload with \<open>exp = 0\<close> and \<open>p5\<close> as a payload
  with \<open>exp = 5\<close>, and fails on everything else. Its identity provider issues \<open>svc2\<close>
  without an expiration, its upstream starts the conversation \<open>conv\<close> and answers every
  question with a consent request, and its chat client accepts every call.
\<close>

definition ex_env :: env where
  "ex_env =
     \<lparr>Date_now = (\<lambda>n. 1000 + int n),
      decodePayload = (\<lambda>s. if s = ''p0'' then Payload (Some 0)
                           else if s = ''p5'' then Payload (Some 5)
                           else DecodeFails),
      acquireTokenByClientCredential =
        (\<lambda>n. Inr (Some \<lparr>r_accessToken = ''svc2'', r_expiresOn = None\<rparr>)),
      startConversationAsync = (\<lambda>n. Inr (Some ''conv'')),
      askQuestionAsync = (\<lambda>n. Inr [ex_consent]),
      chat_postMessage = (\<lambda>n. Inr \<lparr>ts = ''1.0'', channel = ''D1''\<rparr>),
      chat_update = (\<lambda>n. None),
      connectionTimeoutMs = 100\<rparr>"

text \<open>
  Environments in which a collaborator fails: the identity provider, the start of a
  conversation, the upstream send, the upstream send after the first (which is answered
  with a consent request); one in which the upstream answers \<open>Hello\<close>; and one in which
  it starts the conversation \<open>conv0\<close> first and \<open>conv1\<close> from then on, and answers
  \<open>Hello\<close>.
\<close>

definition ex_env_idp_down :: env where
  "ex_env_idp_down =
     ex_env\<lparr>acquireTokenByClientCredential := (\<lambda>n. Inl (Rejected ''idp down''))\<rparr>"

definition ex_env_start_fails :: env where
  "ex_env_start_fails =
     ex_env\<lparr>startConversationAsync := (\<lambda>n. Inl (Rejected ''no conversation''))\<rparr>"

definition ex_env_send_fails :: env where
  "ex_env_send_fails = ex_env\<lparr>askQuestionAsync := (\<lambda>n. Inl (Rejected ''send failed''))\<rparr>"

definition ex_env_resend_fails :: env where
  "ex_env_resend_fails =
     ex_env\<lparr>askQuestionAsync :=
       (\<lambda>n. if n = 0 then Inr [ex_consent] else Inl (Rejected ''resend failed''))\<rparr>"

definition ex_env_hello :: env where
  "ex_env_hello = ex_env\<lparr>askQuestionAsync := (\<lambda>n. Inr [ex_hello])\<rparr>"

definition ex_env_two :: env where
  "ex_env_two =
     ex_env\<lparr>startConversationAsync :=
               (\<lambda>n. Inr (Some (if n = 0 then ''conv0'' else ''conv1''))),
            askQuestionAsync := (\<lambda>n. Inr [ex_hello])\<rparr>"

text \<open>
  The empty state with a chat client; a connection last active at a given time; and a
  state in which the user \<open>u1\<close> has a session.
\<close>

definition ex_world :: world where
  "ex_world =
     \<lparr>activeConnections = [],
      userTokens = [],
      serviceTokenCache = \<lparr>cache_token = None, cache_expiresAt = 0\<rparr>,
      slackClient = True,
      clock_reads = 0, msal_requests = 0, started = [], asked = [], slack_calls = []\<rparr>"

definition ex_conn :: "int \<Rightarrow> string \<Rightarrow> connection" where
  "ex_conn t u =
     \<lparr>client = ''tok'', conversationId = Some ''conv'', lastActivity = t, userId = u\<rparr>"

definition ex_world_u1 :: world where
  "ex_world_u1 = ex_world\<lparr>activeConnections := [(''u1'', ex_conn 500 ''u1'')]\<rparr>"

section \<open>Token store: expiry on read\<close>

lemma split_dot_nonempty: "split_dot s \<noteq> []"
  by (induction s) (auto split: list.splits)

lemma getUserToken_legacy_expired:
  assumes "map_of (userTokens w) u = Some (Legacy s)"
    and "length (split_dot s) = 3"
    and "decodePayload e (split_dot s ! 1) = Payload (Some x)"
    and "x \<noteq> 0"
    and "x * 1000 < Date_now e (clock_reads w)"
    and "valid_date (x * 1000)"
  shows "fst (getUserToken e u w) = Inr None"
    and "map_of (userTokens (snd (getUserToken e u w))) u = None"
    and "fst (getUserToken e' u (snd (getUserToken e u w))) = Inr None"
proof -
  have s: "s \<noteq> []" using assms(2) by auto
  show 1: "fst (getUserToken e u w) = Inr None"
    using assms s by (simp add: getUserToken_def now_read_def)
  show 2: "map_of (userTokens (snd (getUserToken e u w))) u = None"
    using assms s by (simp add: getUserToken_def now_read_def delete_conv')
  show "fst (getUserToken e' u (snd (getUserToken e u w))) = Inr None"
    using 2 by (simp add: getUserToken_def)
qed

lemma getUserToken_structured_expired:
  assumes "map_of (userTokens w) u = Some (Structured td)"
    and "expiresAt td = Some x"
    and "x \<noteq> 0"
    and "x < Date_now e (clock_reads w)"
    and "valid_date x"
  shows "fst (getUserToken e u w) = Inr None"
    and "map_of (userTokens (snd (getUserToken e u w))) u = None"
    and "fst (getUserToken e' u (snd (getUserToken e u w))) = Inr None"
proof -
  show "fst (getUserToken e u w) = Inr None"
    using assms by (simp add: getUserToken_def now_read_def)
  show 2: "map_of (userTokens (snd (getUserToken e u w))) u = None"
    using assms by (simp add: getUserToken_def now_read_def delete_conv')
  show "fst (getUserToken e' u (snd (getUserToken e u w))) = Inr None"
    using 2 by (simp add: getUserToken_def)
qed

lemma storeUserToken_entry:
  "map_of (userTokens (storeUserToken e u t w)) u =
     Some (Structured \<lparr>token = t, storedAt = Date_now e (clock_reads w),
                        lastUsed = Date_now e (Suc (clock_reads w)),
                        expiresAt = jwt_expiresAt e t\<rparr>)"
  by (simp add: storeUserToken_def now_read_def update_conv')

lemma getUserToken_before_expiry:
  assumes "map_of (userTokens w) u = Some (Structured td)"
    and "expiresAt td = Some x"
    and "Date_now e (clock_reads w) \<le> x"
    and "valid_date x"
  shows "fst (getUserToken e u w) = Inr (Some (token td))"
  using assms by (simp add: getUserToken_def now_read_def)

text \<open>
  An expiry that is not a time value. The expired legacy credential is returned and its
  record kept: the range error is thrown before the deletion and caught. On a structured
  record the error reaches the caller: with the record kept when the credential has
  expired, with \<^verbatim>\<open>lastUsed\<close> written when it has not.
\<close>

lemma getUserToken_legacy_date_out_of_range:
  assumes "map_of (userTokens w) u = Some (Legacy s)"
    and "length (split_dot s) = 3"
    and "decodePayload e (split_dot s ! 1) = Payload (Some x)"
    and "x \<noteq> 0"
    and "x * 1000 < Date_now e (clock_reads w)"
    and "\<not> valid_date (x * 1000)"
  shows "fst (getUserToken e u w) = Inr (Some s)"
    and "userTokens (snd (getUserToken e u w)) = userTokens w"
proof -
  have s: "s \<noteq> []" using assms(2) by auto
  show "fst (getUserToken e u w) = Inr (Some s)"
    using assms s by (simp add: getUserToken_def now_read_def)
  show "userTokens (snd (getUserToken e u w)) = userTokens w"
    using assms s by (simp add: getUserToken_def now_read_def)
qed

lemma getUserToken_structured_date_out_of_range:
  assumes "map_of (userTokens w) u = Some (Structured td)"
    and "expiresAt td = Some x"
    and "\<not> valid_date x"
  shows "fst (getUserToken e u w) = Inl invalidTimeValue"
    and "x < Date_now e (clock_reads w) \<Longrightarrow>
           userTokens (snd (getUserToken e u w)) = userTokens w"
    and "Date_now e (clock_reads w) \<le> x \<Longrightarrow>
           map_of (userTokens (snd (getUserToken e u w))) u =
             Some (Structured (td\<lparr>lastUsed := Date_now e (Suc (clock_reads w))\<rparr>))"
proof -
  have x: "x \<noteq> 0" using assms(3) by (auto simp: valid_date_def)
  show "fst (getUserToken e u w) = Inl invalidTimeValue"
    using assms x by (simp add: getUserToken_def now_read_def Let_def)
  show "x < Date_now e (clock_reads w) \<Longrightarrow>
          userTokens (snd (getUserToken e u w)) = userTokens w"
    using assms x by (simp add: getUserToken_def now_read_def Let_def)
  show "Date_now e (clock_reads w) \<le> x \<Longrightarrow>
          map_of (userTokens (snd (getUserToken e u w))) u =
            Some (Structured (td\<lparr>lastUsed := Date_now e (Suc (clock_reads w))\<rparr>))"
    using assms x by (simp add: getUserToken_def now_read_def Let_def update_conv')
qed

text \<open>
  The scenario of the specification on \<open>ex_env\<close>: the credential \<open>h.p5.s\<close> expires at
  5000 ms. Stored and read at about 1000 ms it is returned; read when the clock shows
  6000 ms it is refused and its record is gone.
\<close>

lemma getUserToken_expiry_scenario:
  "fst (getUserToken ex_env ''u1'' (storeUserToken ex_env ''u1'' ''h.p5.s'' ex_world))
     = Inr (Some ''h.p5.s'')
   \<and> fst (getUserToken ex_env ''u1''
        ((storeUserToken ex_env ''u1'' ''h.p5.s'' ex_world)\<lparr>clock_reads := 5000\<rparr>))
       = Inr None
   \<and> userTokens (snd (getUserToken ex_env ''u1''
        ((storeUserToken ex_env ''u1'' ''h.p5.s'' ex_world)\<lparr>clock_reads := 5000\<rparr>))) = []"
  by (simp add: getUserToken_def storeUserToken_def jwt_expiresAt_def now_read_def
      valid_date_def ex_env_def ex_world_def)

text \<open>
  C1. A stored credential whose payload carries a numeric \<open>exp\<close> strictly in the past is
  to be refused and deleted by \<open>getUserToken\<close>. The code tests \<^verbatim>\<open>if (payload.exp)\<close>, which
  is false for \<open>exp = 0\<close>: one second after the epoch the legacy credential \<open>h.p0.s\<close>, whose
  payload has \<open>exp = 0\<close>, is returned and its record kept, and the same credential
  stored through \<open>storeUserToken\<close> gets no expiration and is returned as well. (For every
  other \<open>exp\<close> whose expiry is a time value the lemmas above show the expired credential
  refused and deleted, and the unexpired one returned; an expired credential whose
  expiry is not a time value is not deleted either.)
\<close>

theorem getUserToken_exp_zero_returned:
  "Date_now ex_env 0 = 1000
   \<and> decodePayload ex_env (split_dot ''h.p0.s'' ! 1) = Payload (Some 0)
   \<and> fst (getUserToken ex_env ''u1'' (ex_world\<lparr>userTokens := [(''u1'', Legacy ''h.p0.s'')]\<rparr>))
       = Inr (Some ''h.p0.s'')
   \<and> userTokens (snd (getUserToken ex_env ''u1''
         (ex_world\<lparr>userTokens := [(''u1'', Legacy ''h.p0.s'')]\<rparr>)))
       = [(''u1'', Legacy ''h.p0.s'')]
   \<and> fst (getUserToken ex_env ''u1'' (storeUserToken ex_env ''u1'' ''h.p0.s'' ex_world))
       = Inr (Some ''h.p0.s'')"
  by (simp add: getUserToken_def storeUserToken_def jwt_expiresAt_def now_read_def
      ex_env_def ex_world_def)

section \<open>Service-token cache: reuse and refresh\<close>

lemma getServiceToken_cached:
  "truthy (cache_token (serviceTokenCache w)) \<Longrightarrow>
   Date_now e (clock_reads w) < cache_expiresAt (serviceTokenCache w) - 300000 \<Longrightarrow>
   getServiceToken e w =
     (Inr (the (cache_token (serviceTokenCache w))), w\<lparr>clock_reads := Suc (clock_reads w)\<rparr>)"
  by (simp add: getServiceToken_def now_read_def cache_valid_def)

lemma getServiceToken_result_cached:
  "getServiceToken e w = (Inr tok, w1) \<Longrightarrow> cache_token (serviceTokenCache w1) = Some tok"
  by (auto simp: getServiceToken_def now_read_def cache_valid_def truthy_def Let_def
      split: if_splits sum.splits option.splits)

lemma getServiceToken_refresh_count:
  "\<not> (truthy (cache_token (serviceTokenCache w)) \<and>
      Date_now e (clock_reads w) < cache_expiresAt (serviceTokenCache w) - 300000) \<Longrightarrow>
   msal_requests (snd (getServiceToken e w)) = Suc (msal_requests w)"
  by (auto simp: getServiceToken_def now_read_def cache_valid_def Let_def
      split: sum.splits option.splits)

lemma getServiceToken_refresh:
  "\<not> (truthy (cache_token (serviceTokenCache w)) \<and>
      Date_now e (clock_reads w) < cache_expiresAt (serviceTokenCache w) - 300000) \<Longrightarrow>
   acquireTokenByClientCredential e (msal_requests w) = Inr (Some r) \<Longrightarrow>
   fst (getServiceToken e w) = Inr (r_accessToken r) \<and>
   serviceTokenCache (snd (getServiceToken e w)) =
     \<lparr>cache_token = Some (r_accessToken r),
      cache_expiresAt = (case r_expiresOn r of Some t \<Rightarrow> t
                         | None \<Rightarrow> Date_now e (clock_reads w) + 3600000)\<rparr>"
  by (auto simp: getServiceToken_def now_read_def cache_valid_def Let_def
      split: sum.splits option.splits)

text \<open>
  C2. (1) When the cache holds a token (a non-empty string) and the clock is strictly
  before \<open>expiresAt\<close> minus 300000 ms, \<open>getServiceToken\<close> returns the cached token and
  changes nothing but the count of clock reads: the identity provider is not invoked.
  (2) Hence a call that returned a token, followed by a call still within the buffer of
  the cached expiration, returns the same token, again without a request.
  (3) Once the buffer has elapsed (or no token is held) the provider is requested exactly
  once, and (4) its token is returned and cached with the returned expiration, or with
  the time of the call plus 3600000 ms when the provider gives none.
\<close>

theorem getServiceToken_reuse_or_refresh:
  "(truthy (cache_token (serviceTokenCache w)) \<and>
      Date_now e (clock_reads w) < cache_expiresAt (serviceTokenCache w) - 300000 \<longrightarrow>
      getServiceToken e w =
        (Inr (the (cache_token (serviceTokenCache w))), w\<lparr>clock_reads := Suc (clock_reads w)\<rparr>))
   \<and> (getServiceToken e w = (Inr tok, w1) \<and> tok \<noteq> [] \<and>
      Date_now e (clock_reads w1) < cache_expiresAt (serviceTokenCache w1) - 300000 \<longrightarrow>
      getServiceToken e w1 = (Inr tok, w1\<lparr>clock_reads := Suc (clock_reads w1)\<rparr>))
   \<and> (\<not> (truthy (cache_token (serviceTokenCache w)) \<and>
         Date_now e (clock_reads w) < cache_expiresAt (serviceTokenCache w) - 300000) \<longrightarrow>
      msal_requests (snd (getServiceToken e w)) = Suc (msal_requests w))
   \<and> (\<not> (truthy (cache_token (serviceTokenCache w)) \<and>
         Date_now e (clock_reads w) < cache_expiresAt (serviceTokenCache w) - 300000) \<and>
      acquireTokenByClientCredential e (msal_requests w) = Inr (Some r) \<longrightarrow>
      fst (getServiceToken e w) = Inr (r_accessToken r) \<and>
      serviceTokenCache (snd (getServiceToken e w)) =
        \<lparr>cache_token = Some (r_accessToken r),
         cache_expiresAt = (case r_expiresOn r of Some t \<Rightarrow> t
                            | None \<Rightarrow> Date_now e (clock_reads w) + 3600000)\<rparr>)"
proof (intro conjI impI)
  assume "truthy (cache_token (serviceTokenCache w)) \<and>
      Date_now e (clock_reads w) < cache_expiresAt (serviceTokenCache w) - 300000"
  then show "getServiceToken e w =
        (Inr (the (cache_token (serviceTokenCache w))), w\<lparr>clock_reads := Suc (clock_reads w)\<rparr>)"
    by (simp add: getServiceToken_cached)
next
  assume a: "getServiceToken e w = (Inr tok, w1) \<and> tok \<noteq> [] \<and>
      Date_now e (clock_reads w1) < cache_expiresAt (serviceTokenCache w1) - 300000"
  then have c: "cache_token (serviceTokenCache w1) = Some tok"
    using getServiceToken_result_cached [of e w tok w1] by blast
  with a have "truthy (cache_token (serviceTokenCache w1))"
    by (simp add: truthy_def)
  with a c show "getServiceToken e w1 = (Inr tok, w1\<lparr>clock_reads := Suc (clock_reads w1)\<rparr>)"
    by (simp add: getServiceToken_cached)
next
  assume "\<not> (truthy (cache_token (serviceTokenCache w)) \<and>
         Date_now e (clock_reads w) < cache_expiresAt (serviceTokenCache w) - 300000)"
  then show "msal_requests (snd (getServiceToken e w)) = Suc (msal_requests w)"
    by (rule getServiceToken_refresh_count)
next
  assume a: "\<not> (truthy (cache_token (serviceTokenCache w)) \<and>
         Date_now e (clock_reads w) < cache_expiresAt (serviceTokenCache w) - 300000) \<and>
      acquireTokenByClientCredential e (msal_requests w) = Inr (Some r)"
  then show "fst (getServiceToken e w) = Inr (r_accessToken r)"
    using getServiceToken_refresh [of w e r] by simp
  from a show "serviceTokenCache (snd (getServiceToken e w)) =
        \<lparr>cache_token = Some (r_accessToken r),
         cache_expiresAt = (case r_expiresOn r of Some t \<Rightarrow> t
                            | None \<Rightarrow> Date_now e (clock_reads w) + 3600000)\<rparr>"
    using getServiceToken_refresh [of w e r] by simp
qed

text \<open>
  The theorem at two states of \<open>ex_env\<close>. In the first the cache holds \<open>svc\<close> until
  3601000 ms and it is 1000 ms: two successive calls return \<open>svc\<close> and no request is
  made. In the second the cache is empty: one request is made, \<open>svc2\<close> is returned
  and cached until 1000 + 3600000 ms, and the next call returns it from the cache.
\<close>

theorem getServiceToken_reuse_or_refresh_witness:
  "getServiceToken ex_env
      (ex_world\<lparr>serviceTokenCache := \<lparr>cache_token = Some ''svc'', cache_expiresAt = 3601000\<rparr>\<rparr>)
     = (Inr ''svc'',
        ex_world\<lparr>serviceTokenCache := \<lparr>cache_token = Some ''svc'', cache_expiresAt = 3601000\<rparr>,
                 clock_reads := 1\<rparr>)
   \<and> getServiceToken ex_env
      (ex_world\<lparr>serviceTokenCache := \<lparr>cache_token = Some ''svc'', cache_expiresAt = 3601000\<rparr>,
                clock_reads := 1\<rparr>)
     = (Inr ''svc'',
        ex_world\<lparr>serviceTokenCache := \<lparr>cache_token = Some ''svc'', cache_expiresAt = 3601000\<rparr>,
                 clock_reads := 2\<rparr>)
   \<and> msal_requests (snd (getServiceToken ex_env ex_world)) = 1
   \<and> fst (getServiceToken ex_env ex_world) = Inr ''svc2''
   \<and> serviceTokenCache (snd (getServiceToken ex_env ex_world))
       = \<lparr>cache_token = Some ''svc2'', cache_expiresAt = 3601000\<rparr>"
  using
    getServiceToken_reuse_or_refresh
      [of "ex_world\<lparr>serviceTokenCache := \<lparr>cache_token = Some ''svc'', cache_expiresAt = 3601000\<rparr>\<rparr>"
          ex_env "''svc''"
          "ex_world\<lparr>serviceTokenCache := \<lparr>cache_token = Some ''svc'', cache_expiresAt = 3601000\<rparr>,
                    clock_reads := 1\<rparr>"
          "\<lparr>r_accessToken = ''svc2'', r_expiresOn = None\<rparr>"]
    getServiceToken_reuse_or_refresh
      [of ex_world ex_env "''svc2''" "snd (getServiceToken ex_env ex_world)"
          "\<lparr>r_accessToken = ''svc2'', r_expiresOn = None\<rparr>"]
  by (simp add: truthy_def ex_env_def ex_world_def)

section \<open>Clean-up: idle sessions\<close>

lemma fold_delete_filter:
  "fold (\<lambda>(k, v) m. if P k v then AList.delete k m else m) xs m =
   filter (\<lambda>p. \<not> (\<exists>v. (fst p, v) \<in> set xs \<and> P (fst p) v)) m"
proof (induction xs arbitrary: m)
  case Nil
  then show ?case by simp
next
  case (Cons x xs)
  obtain k v where x: "x = (k, v)" by (cases x)
  show ?case
    by (auto simp: x Cons.IH AList.delete_eq intro!: filter_cong)
qed

lemma sweep_connections_filter:
  assumes "distinct (map fst conns)"
  shows "sweep_connections now maxAge conns = filter (\<lambda>p. \<not> stale now maxAge (snd p)) conns"
proof -
  have "\<And>p v. p \<in> set conns \<Longrightarrow> (fst p, v) \<in> set conns \<Longrightarrow> v = snd p"
    using assms by (metis eq_key_imp_eq_value prod.collapse)
  then show ?thesis
    unfolding sweep_connections_def fold_delete_filter
    by (intro filter_cong) (auto)
qed

lemma map_of_filter_snd:
  "distinct (map fst xs) \<Longrightarrow>
   map_of (filter (\<lambda>p. Q (snd p)) xs) k =
     (case map_of xs k of None \<Rightarrow> None | Some v \<Rightarrow> if Q v then Some v else None)"
proof (induction xs)
  case Nil
  then show ?case by simp
next
  case (Cons x xs)
  obtain a b where x: "x = (a, b)" by (cases x)
  have "a \<notin> fst ` set xs" using Cons.prems by (simp add: x)
  then have "map_of xs a = None" by (simp add: map_of_eq_None_iff)
  with Cons show ?case by (auto simp: x split: option.splits)
qed

lemma activeConnections_cleanup:
  "activeConnections (cleanup e w) =
     sweep_connections (Date_now e (clock_reads w)) (connectionTimeoutMs e) (activeConnections w)"
  by (simp add: cleanup_def now_read_def Let_def)

text \<open>
  C7. The connection phase of \<open>cleanup\<close> removes exactly the sessions whose idle time
  (the clock read of the call minus \<open>lastActivity\<close>) is strictly greater than the
  configured timeout: the registry afterwards is the registry before, in the same order
  and with the same fields, without those entries. The hypothesis is the property of a
  map that a key has one entry.
\<close>

theorem cleanup_removes_exactly_idle:
  assumes "distinct (map fst (activeConnections w))"
  shows "activeConnections (cleanup e w) =
           filter (\<lambda>p. \<not> Date_now e (clock_reads w) - lastActivity (snd p) > connectionTimeoutMs e)
             (activeConnections w)
         \<and> map_of (activeConnections (cleanup e w)) k =
           (case map_of (activeConnections w) k of
              None \<Rightarrow> None
            | Some c \<Rightarrow>
                if Date_now e (clock_reads w) - lastActivity c > connectionTimeoutMs e
                then None else Some c)"
proof -
  have 1: "activeConnections (cleanup e w) =
           filter (\<lambda>p. \<not> Date_now e (clock_reads w) - lastActivity (snd p) > connectionTimeoutMs e)
             (activeConnections w)"
    using sweep_connections_filter [OF assms] by (simp add: activeConnections_cleanup stale_def)
  show ?thesis
    unfolding 1 using map_of_filter_snd [OF assms, of "\<lambda>c. \<not> Date_now e (clock_reads w) - lastActivity c > connectionTimeoutMs e" k]
    by (auto split: option.splits)
qed

text \<open>
  At 1000 ms with a timeout of 100 ms: the sessions last active at 0 and at 899 are
  removed, the one last active at 900 (idle for exactly the timeout) is kept.
\<close>

theorem cleanup_removes_exactly_idle_witness:
  "distinct (map fst [(''a'', ex_conn 0 ''a''), (''b'', ex_conn 900 ''b''), (''c'', ex_conn 899 ''c'')])
   \<and> activeConnections (cleanup ex_env
        (ex_world\<lparr>activeConnections := [(''a'', ex_conn 0 ''a''), (''b'', ex_conn 900 ''b''), (''c'', ex_conn 899 ''c'')]\<rparr>))
      = [(''b'', ex_conn 900 ''b'')]"
  using cleanup_removes_exactly_idle [of "ex_world\<lparr>activeConnections := [(''a'', ex_conn 0 ''a''), (''b'', ex_conn 900 ''b''), (''c'', ex_conn 899 ''c'')]\<rparr>" ex_env "''a''"]
  by (simp add: ex_env_def ex_world_def ex_conn_def)

section \<open>Sign-in card: the text returned\<close>

lemma find_signin_dropWhile:
  "find_signin bs =
     (case dropWhile other_button bs of
        [] \<Rightarrow> Inr None
      | None # rest \<Rightarrow> Inl (TypeError ''Cannot read properties of null'')
      | Some b # rest \<Rightarrow> Inr (Some b))"
  by (induction bs rule: find_signin.induct) (auto simp: other_button_def)

text \<open>
  C9, as the code has it. \<open>handleUserSignInCard\<close> is a total function to strings: it never
  raises. When the first attachment is missing or not of the OAuth content type it
  returns the not-found message. Otherwise the buttons are searched for the first entry
  that is \<^verbatim>\<open>null\<close> or of type \<^verbatim>\<open>signin\<close>: when there is none (or no button list) the
  link-missing message is returned; when it is \<^verbatim>\<open>null\<close> the error caught yields the
  fixed sign-in error message; when it is a sign-in button without a non-empty value the
  link-missing message is returned, also if a later sign-in button has one; otherwise
  the text is the prompt (the card's text, or \<open>Please sign in to continue.\<close> when the card
  has none), a blank line, and \<open>Click here to sign in: \<close> followed by the link
  \<open><value|Sign In>\<close>.
\<close>

theorem handleUserSignInCard_cases:
  "handleUserSignInCard a =
     (case first_attachment a of
        None \<Rightarrow> signInNotFound
      | Some att \<Rightarrow>
          if contentType att \<noteq> oauthCardType then signInNotFound
          else
            (case dropWhile other_button
                    (case card_buttons att of None \<Rightarrow> [] | Some bs \<Rightarrow> bs) of
               [] \<Rightarrow> signInLinkMissing
             | None # rest \<Rightarrow> signInError
             | Some b # rest \<Rightarrow>
                 (case b_value b of
                    None \<Rightarrow> signInLinkMissing
                  | Some url \<Rightarrow>
                      if url = [] then signInLinkMissing
                      else
                        (case card_text att of
                           None \<Rightarrow> defaultPrompt
                         | Some t \<Rightarrow> if t = [] then defaultPrompt else t)
                        @ [CHR 0x0A, CHR 0x0A] @ ''Click here to sign in: <'' @ url
                        @ ''|Sign In>'')))"
proof (cases "first_attachment a")
  case None
  then show ?thesis
    by (simp add: handleUserSignInCard_def handleUserSignInCard_try_def)
next
  case (Some att)
  define bs where "bs = (case card_buttons att of None \<Rightarrow> [] | Some bs \<Rightarrow> bs)"
  have f: "(case card_buttons att of None \<Rightarrow> Inr None | Some bs \<Rightarrow> find_signin bs)
             = find_signin bs"
    by (simp add: bs_def split: option.split)
  define d where "d = dropWhile other_button bs"
  show ?thesis
  proof (cases d)
    case Nil
    with Some show ?thesis
      by (simp add: handleUserSignInCard_def handleUserSignInCard_try_def f
          find_signin_dropWhile flip: bs_def d_def)
  next
    case (Cons x rest)
    with Some show ?thesis
      by (cases x)
         (simp_all add: handleUserSignInCard_def handleUserSignInCard_try_def f
            find_signin_dropWhile signInMessage_def truthy_def Let_def
            flip: bs_def d_def split: option.split)
  qed
qed

text \<open>
  C9 as stated fails on the card \<open>ex_signin_card\<close>: a sign-in button with a value exists
  (the second one), yet the code returns the link-missing message, because the first
  sign-in button has no value.
\<close>

theorem handleUserSignInCard_first_button_counterexample:
  "handleUserSignInCard ex_signin_card = signInLinkMissing
   \<and> claimed_signInText ex_signin_card = signInMessage ''Sign in'' ''https://login''
   \<and> handleUserSignInCard ex_signin_card \<noteq> claimed_signInText ex_signin_card"
  by (simp add: handleUserSignInCard_def handleUserSignInCard_try_def claimed_signInText_def
      first_attachment_def card_buttons_def card_text_def ex_signin_card_def oauthCardType_def
      truthy_def signInMessage_def signInLinkMissing_def List.map_filter_simps)

section \<open>Consent sub-protocol: no depth limit\<close>

declare handleConsentCardResponse.simps [simp del]

lemma handleConsentCardResponse_no_user:
  "handleConsentCardResponse e act None w = (Inr (), w)"
  by (simp add: handleConsentCardResponse.simps lookup_connection_def)

lemma nested_consent_calls_idle:
  "fold (\<lambda>a w'. if a_name a = Some consentCardName
                  then snd (handleConsentCardResponse e a None w')
                  else w') responses w = w"
  by (induction responses) (simp_all add: handleConsentCardResponse_no_user)

lemma handleConsentCardResponse_found:
  "lookup_connection w uid = Some conn \<Longrightarrow>
   handleConsentCardResponse e act uid w =
     (case askQuestionAsync e (length (asked w)) of
        Inl err \<Rightarrow> Inl err
      | Inr responses \<Rightarrow> Inr (),
      w\<lparr>asked := asked w @ [(consentPayload, conversationId conn)]\<rparr>)"
  by (simp add: handleConsentCardResponse.simps [of e act uid w] askQuestion_def
      nested_consent_calls_idle split: sum.split)

lemma handleConsentCardResponse_not_found:
  "lookup_connection w uid = None \<Longrightarrow> handleConsentCardResponse e act uid w = (Inr (), w)"
  by (simp add: handleConsentCardResponse.simps [of e act uid w])

lemma handleConsentCardResponse_frame:
  "activeConnections (snd (handleConsentCardResponse e act uid w)) = activeConnections w"
  "userTokens (snd (handleConsentCardResponse e act uid w)) = userTokens w"
  "serviceTokenCache (snd (handleConsentCardResponse e act uid w)) = serviceTokenCache w"
  "slackClient (snd (handleConsentCardResponse e act uid w)) = slackClient w"
  "clock_reads (snd (handleConsentCardResponse e act uid w)) = clock_reads w"
  "msal_requests (snd (handleConsentCardResponse e act uid w)) = msal_requests w"
  "started (snd (handleConsentCardResponse e act uid w)) = started w"
  "slack_calls (snd (handleConsentCardResponse e act uid w)) = slack_calls w"
  by (cases "lookup_connection w uid";
      simp add: handleConsentCardResponse_found handleConsentCardResponse_not_found)+

text \<open>
  C5, as the code has it. No maximum depth is configured and there is no error for
  exceeding one: an error with which the sub-protocol ends is an error with which the
  upstream rejected a send; and when the upstream rejects the resend made for a user who
  has a session, the sub-protocol ends with that error. (How many resends a run makes,
  and what it does with the consent requests in the answer to its resend, is not
  stated here.)
\<close>

theorem handleConsentCardResponse_error_from_upstream:
  "(fst (handleConsentCardResponse e act uid w) = Inl err \<longrightarrow>
      (\<exists>n. askQuestionAsync e n = Inl err))
   \<and> (lookup_connection w uid = Some conn
        \<and> askQuestionAsync e (length (asked w)) = Inl err' \<longrightarrow>
      fst (handleConsentCardResponse e act uid w) = Inl err')"
proof (intro conjI impI)
  assume a: "fst (handleConsentCardResponse e act uid w) = Inl err"
  show "\<exists>n. askQuestionAsync e n = Inl err"
  proof (cases "lookup_connection w uid")
    case None
    with a show ?thesis by (simp add: handleConsentCardResponse_not_found)
  next
    case (Some c)
    with a have "askQuestionAsync e (length (asked w)) = Inl err"
      by (simp add: handleConsentCardResponse_found split: sum.splits)
    then show ?thesis ..
  qed
next
  assume "lookup_connection w uid = Some conn
        \<and> askQuestionAsync e (length (asked w)) = Inl err'"
  then show "fst (handleConsentCardResponse e act uid w) = Inl err'"
    by (simp add: handleConsentCardResponse_found)
qed

text \<open>
  In \<open>ex_env_send_fails\<close> the upstream rejects every send; the user \<open>u1\<close> has a session.
\<close>

theorem handleConsentCardResponse_error_from_upstream_witness:
  "lookup_connection ex_world_u1 (Some ''u1'') = Some (ex_conn 500 ''u1'')
   \<and> askQuestionAsync ex_env_send_fails (length (asked ex_world_u1))
       = Inl (Rejected ''send failed'')
   \<and> fst (handleConsentCardResponse ex_env_send_fails ex_consent (Some ''u1'') ex_world_u1)
       = Inl (Rejected ''send failed'')
   \<and> (\<exists>n. askQuestionAsync ex_env_send_fails n = Inl (Rejected ''send failed''))"
proof -
  have h: "lookup_connection ex_world_u1 (Some ''u1'') = Some (ex_conn 500 ''u1'')
      \<and> askQuestionAsync ex_env_send_fails (length (asked ex_world_u1))
          = Inl (Rejected ''send failed'')"
    by (simp add: lookup_connection_def ex_world_u1_def ex_world_def ex_env_send_fails_def
        ex_env_def)
  note inst = handleConsentCardResponse_error_from_upstream
    [where e = ex_env_send_fails and act = ex_consent and uid = "Some ''u1''"
       and w = ex_world_u1 and conn = "ex_conn 500 ''u1''"
       and err = "Rejected ''send failed''" and err' = "Rejected ''send failed''"]
  from inst h have r: "fst (handleConsentCardResponse ex_env_send_fails ex_consent (Some ''u1'')
      ex_world_u1) = Inl (Rejected ''send failed'')"
    by simp
  with inst have "\<exists>n. askQuestionAsync ex_env_send_fails n = Inl (Rejected ''send failed'')"
    by simp
  with h r show ?thesis by simp
qed

text \<open>
  C5 as stated fails: the upstream of \<open>ex_env\<close> answers every resend with another consent
  request (the first four answers are shown), and the sub-protocol ends without an
  error.
\<close>

theorem consent_loop_no_error_counterexample:
  "askQuestionAsync ex_env 0 = Inr [ex_consent]
   \<and> askQuestionAsync ex_env 1 = Inr [ex_consent]
   \<and> askQuestionAsync ex_env 2 = Inr [ex_consent]
   \<and> askQuestionAsync ex_env 3 = Inr [ex_consent]
   \<and> a_name ex_consent = Some consentCardName
   \<and> lookup_connection ex_world_u1 (Some ''u1'') = Some (ex_conn 500 ''u1'')
   \<and> fst (handleConsentCardResponse ex_env ex_consent (Some ''u1'') ex_world_u1) = Inr ()"
  by (simp add: handleConsentCardResponse_found [of _ _ "ex_conn 500 ''u1''"]
      lookup_connection_def ex_world_u1_def ex_world_def ex_env_def ex_conn_def ex_consent_def
      consentCardName_def)

section \<open>The reply of a turn\<close>

lemma classify_snoc: "classify (replies @ [a]) = classify_step a (classify replies)"
  by (simp add: classify_def)

lemma classify_step_cases:
  "classify_step a (r, c, s) =
     (if is_text_message a then (r @ the (a_text a) @ '' '', c, s)
      else if is_consent a then (r, Some a, s)
      else if is_signin a then (r, c, Some a)
      else (r, c, s))"
  by (auto simp: classify_step_def is_text_message_def is_consent_def is_signin_def)

lemma is_consent_not: "is_consent a \<Longrightarrow> \<not> is_text_message a \<and> \<not> is_signin a"
  by (simp add: is_consent_def is_signin_def)

lemma is_signin_not: "is_signin a \<Longrightarrow> \<not> is_text_message a \<and> \<not> is_consent a"
  by (simp add: is_consent_def is_signin_def)

lemma classify_captures:
  "classify replies =
     (concat (map (\<lambda>t. t @ '' '') (texts replies)),
      last_option (filter is_consent replies),
      last_option (filter is_signin replies))"
proof (induction replies rule: rev_induct)
  case Nil
  then show ?case by (simp add: classify_def texts_def last_option_def)
next
  case (snoc a replies)
  consider "is_text_message a" | "is_consent a" | "is_signin a"
    | "\<not> is_text_message a" "\<not> is_consent a" "\<not> is_signin a"
    by blast
  then show ?case
  proof cases
    case 1
    then have "\<not> is_consent a" "\<not> is_signin a"
      using is_consent_not is_signin_not by blast+
    with 1 show ?thesis
      unfolding classify_snoc snoc.IH classify_step_cases
      by (simp add: texts_def)
  next
    case 2
    then have "\<not> is_text_message a" "\<not> is_signin a"
      using is_consent_not by blast+
    with 2 show ?thesis
      unfolding classify_snoc snoc.IH classify_step_cases
      by (simp add: texts_def last_option_def)
  next
    case 3
    then have "\<not> is_text_message a" "\<not> is_consent a"
      using is_signin_not by blast+
    with 3 show ?thesis
      unfolding classify_snoc snoc.IH classify_step_cases
      by (simp add: texts_def last_option_def)
  next
    case 4
    then show ?thesis
      unfolding classify_snoc snoc.IH classify_step_cases
      by (simp add: texts_def)
  qed
qed

lemma isWhiteSpace_space: "isWhiteSpace CHR '' ''"
  by (simp add: isWhiteSpace_def)

lemma trim_append_space: "trim (s @ '' '') = trim s"
proof (cases "\<forall>c\<in>set s. isWhiteSpace c")
  case True
  then show ?thesis
    by (auto simp: trim_def dropWhile_append isWhiteSpace_space dest: set_dropWhileD)
next
  case False
  then show ?thesis by (auto simp: trim_def dropWhile_append isWhiteSpace_space)
qed

lemma concat_texts_join:
  "ss \<noteq> [] \<Longrightarrow> concat (map (\<lambda>t. t @ '' '') ss) = join_space ss @ '' ''"
  by (induction ss rule: join_space.induct) simp_all

lemma trim_responseText: "trim (concat (map (\<lambda>t. t @ '' '') ss)) = trim (join_space ss)"
proof (cases "ss = []")
  case True
  then show ?thesis by simp
next
  case False
  then show ?thesis by (simp add: concat_texts_join trim_append_space)
qed

text \<open>
  C3, as the code has it. The primary reply is the space-separated concatenation of the
  texts of the text messages, in order, with the white space at both ends trimmed,
  provided that trimmed string is not empty. Otherwise, when a consent request was
  captured, the last one is passed to the consent sub-protocol and, if that does not
  fail, the approval-sent text is the reply; otherwise the no-response text is the
  reply. When a sign-in card was captured, a space and the sign-in text of the last one
  are appended, in every branch.
\<close>

theorem finalResponse_priority:
  "finalResponse e uid replies w =
     (let txt = trim (join_space (texts replies));
          suffix = (case last_option (filter is_signin replies) of
                      None \<Rightarrow> []
                    | Some signIn \<Rightarrow> '' '' @ handleUserSignInCard signIn)
      in if txt \<noteq> [] then (Inr (txt @ suffix), w)
         else
           (case last_option (filter is_consent replies) of
              None \<Rightarrow> (Inr (noResponse @ suffix), w)
            | Some consent \<Rightarrow>
                (case handleConsentCardResponse e consent (Some uid) w of
                   (Inl err, w1) \<Rightarrow> (Inl err, w1)
                 | (Inr u, w1) \<Rightarrow> (Inr (consentApprovalSent @ suffix), w1))))"
  by (simp add: finalResponse_def classify_captures trim_responseText Let_def
      split: option.split prod.split sum.split)

text \<open>
  C3 as stated fails on the single reply \<open>ex_blank\<close>, a message whose text is one space:
  the concatenation of the texts is not empty, so it would be the reply, but the code
  trims it to the empty string and answers with the no-response text.
\<close>

theorem finalResponse_blank_text_counterexample:
  "claimed_primary_reply [ex_blank] = '' ''
   \<and> finalResponse ex_env ''u1'' [ex_blank] ex_world = (Inr noResponse, ex_world)
   \<and> noResponse \<noteq> '' ''"
  by (simp add: finalResponse_def classify_def classify_step_def claimed_primary_reply_def
      texts_def is_text_message_def truthy_def trim_def isWhiteSpace_def ex_blank_def
      noResponse_def)

section \<open>What each operation leaves unchanged\<close>

lemma getServiceToken_frame [simp]:
  "activeConnections (snd (getServiceToken e w)) = activeConnections w"
  "userTokens (snd (getServiceToken e w)) = userTokens w"
  "slackClient (snd (getServiceToken e w)) = slackClient w"
  "started (snd (getServiceToken e w)) = started w"
  "asked (snd (getServiceToken e w)) = asked w"
  "slack_calls (snd (getServiceToken e w)) = slack_calls w"
  "clock_reads (snd (getServiceToken e w)) = Suc (clock_reads w)"
  by (simp_all add: getServiceToken_def now_read_def Let_def split: sum.split option.split)

lemma createAgentsConnection_frame [simp]:
  "activeConnections (snd (createAgentsConnection e cl w)) = activeConnections w"
  "userTokens (snd (createAgentsConnection e cl w)) = userTokens w"
  "slackClient (snd (createAgentsConnection e cl w)) = slackClient w"
  "asked (snd (createAgentsConnection e cl w)) = asked w"
  "slack_calls (snd (createAgentsConnection e cl w)) = slack_calls w"
  "clock_reads (snd (createAgentsConnection e cl w)) = clock_reads w"
  "msal_requests (snd (createAgentsConnection e cl w)) = msal_requests w"
  "started (snd (createAgentsConnection e cl w)) = started w @ [cl]"
  by (simp_all add: createAgentsConnection_def Let_def split: sum.split)

lemma createUserConnection_effect:
  "createUserConnection e uid tok w = (r, w') \<Longrightarrow>
     userTokens w' = userTokens w \<and> slackClient w' = slackClient w
     \<and> asked w' = asked w \<and> slack_calls w' = slack_calls w
     \<and> (case r of
          Inl err \<Rightarrow> activeConnections w' = activeConnections w
        | Inr c \<Rightarrow> activeConnections w' = AList.update uid c (activeConnections w)
                   \<and> userId c = uid)"
  by (auto simp: createUserConnection_def createAgentsConnection_def getServiceToken_def
      now_read_def Let_def
      split: prod.splits sum.splits option.splits if_splits)

lemma update_absent: "map_of al k = None \<Longrightarrow> AList.update k v al = al @ [(k, v)]"
  by (induction al) (auto split: if_splits)

lemma handleConsentCardResponse_asked:
  "asked (snd (handleConsentCardResponse e act uid w)) =
     (case lookup_connection w uid of
        None \<Rightarrow> asked w
      | Some conn \<Rightarrow> asked w @ [(consentPayload, conversationId conn)])"
  by (cases "lookup_connection w uid")
     (simp_all add: handleConsentCardResponse_found handleConsentCardResponse_not_found)

lemma handleConsentCardResponse_effect:
  "handleConsentCardResponse e act uid w = (r, w') \<Longrightarrow>
     activeConnections w' = activeConnections w \<and> userTokens w' = userTokens w
     \<and> slackClient w' = slackClient w \<and> slack_calls w' = slack_calls w
     \<and> started w' = started w \<and> msal_requests w' = msal_requests w
     \<and> clock_reads w' = clock_reads w
     \<and> (asked w' = asked w \<or> (\<exists>q. asked w' = asked w @ [q]))"
  using handleConsentCardResponse_frame [of e act uid w]
    handleConsentCardResponse_asked [of e act uid w]
  by (auto split: option.splits)

lemma finalResponse_effect:
  "finalResponse e uid replies w = (r, w') \<Longrightarrow>
     activeConnections w' = activeConnections w \<and> userTokens w' = userTokens w
     \<and> slackClient w' = slackClient w \<and> slack_calls w' = slack_calls w
     \<and> started w' = started w \<and> msal_requests w' = msal_requests w
     \<and> clock_reads w' = clock_reads w
     \<and> (asked w' = asked w \<or> (\<exists>q. asked w' = asked w @ [q]))"
  by (auto simp: finalResponse_def
      split: prod.splits sum.splits option.splits if_splits
      dest!: handleConsentCardResponse_effect)

lemma postThinkingMessage_effect:
  "postThinkingMessage e uid w = (tm, w0) \<Longrightarrow>
     (\<exists>calls. w0 = w\<lparr>slack_calls := calls\<rparr>) \<and> (tm \<noteq> None \<longrightarrow> slackClient w)"
  by (auto simp: postThinkingMessage_def Let_def split: if_splits sum.splits
      intro: exI [of _ "slack_calls w"])

lemma update_if_posted_effect:
  "\<exists>calls. update_if_posted e tm txt w = w\<lparr>slack_calls := calls\<rparr>"
  by (auto simp: update_if_posted_def updateThinkingMessage_def Let_def
      split: option.splits intro: exI [of _ "slack_calls w"])

lemma sendMessage_try_effect:
  "sendMessage_try e uid txt tok w = (r, w') \<Longrightarrow>
     userTokens w' = userTokens w \<and> slackClient w' = slackClient w
     \<and> slack_calls w' = slack_calls w
     \<and> (case map_of (activeConnections w) uid of
          Some c \<Rightarrow>
            activeConnections w' = activeConnections w \<and> started w' = started w
            \<and> msal_requests w' = msal_requests w \<and> clock_reads w' = clock_reads w
            \<and> (\<exists>rest. asked w' = asked w @ (txt, conversationId c) # rest)
        | None \<Rightarrow>
            activeConnections w' = activeConnections w
            \<or> (\<exists>c. activeConnections w' = activeConnections w @ [(uid, c)]))"
proof (cases "map_of (activeConnections w) uid")
  case None
  obtain r1 w1 where c: "createUserConnection e uid tok w = (r1, w1)"
    by (cases "createUserConnection e uid tok w")
  note e1 = createUserConnection_effect [OF c]
  from e1 have fr: "userTokens w1 = userTokens w" "slackClient w1 = slackClient w"
    "slack_calls w1 = slack_calls w"
    by simp_all
  assume a: "sendMessage_try e uid txt tok w = (r, w')"
  show ?thesis
  proof (cases r1)
    case (Inl err)
    with a c None e1 show ?thesis
      by (simp add: sendMessage_try_def)
  next
    case (Inr conn)
    with e1 None have reg: "activeConnections w1 = activeConnections w @ [(uid, conn)]"
      by (simp add: update_absent)
    show ?thesis
    proof (cases "askQuestionAsync e (length (asked w1))")
      case (Inl err)
      with a c None Inr have "w' = w1\<lparr>asked := asked w1 @ [(txt, conversationId conn)]\<rparr>"
        by (simp add: sendMessage_try_def askQuestion_def)
      with fr reg None show ?thesis
        by simp
    next
      case replies: (Inr replies)
      obtain r2 w2 where f: "finalResponse e uid replies
          (w1\<lparr>asked := asked w1 @ [(txt, conversationId conn)]\<rparr>) = (r2, w2)"
        by (cases "finalResponse e uid replies
          (w1\<lparr>asked := asked w1 @ [(txt, conversationId conn)]\<rparr>)")
      from a c None Inr replies f have "w' = w2"
        by (simp add: sendMessage_try_def askQuestion_def)
      with finalResponse_effect [OF f] fr reg None show ?thesis
        by simp
    qed
  qed
next
  case (Some conn)
  assume a: "sendMessage_try e uid txt tok w = (r, w')"
  show ?thesis
  proof (cases "askQuestionAsync e (length (asked w))")
    case (Inl err)
    with a Some show ?thesis
      by (auto simp: sendMessage_try_def askQuestion_def)
  next
    case replies: (Inr replies)
    obtain r2 w2 where f: "finalResponse e uid replies
        (w\<lparr>asked := asked w @ [(txt, conversationId conn)]\<rparr>) = (r2, w2)"
      by (cases "finalResponse e uid replies
        (w\<lparr>asked := asked w @ [(txt, conversationId conn)]\<rparr>)")
    from a Some replies f have "r = r2" "w' = w2"
      by (simp_all add: sendMessage_try_def askQuestion_def)
    with finalResponse_effect [OF f] Some show ?thesis
      by auto
  qed
qed

section \<open>The chat turn: failures, sessions and the returned text\<close>

lemma sendMessage_Inl:
  assumes "sendMessage e uid txt tok w = (Inl err, w')"
  shows "\<exists>tm w0 w1. postThinkingMessage e uid w = (tm, w0)
           \<and> sendMessage_try e uid txt tok w0 = (Inl err, w1)
           \<and> w' = update_if_posted e tm errorApology w1"
proof -
  obtain tm w0 where p: "postThinkingMessage e uid w = (tm, w0)"
    by (cases "postThinkingMessage e uid w")
  obtain r1 w1 where t: "sendMessage_try e uid txt tok w0 = (r1, w1)"
    by (cases "sendMessage_try e uid txt tok w0")
  from assms p t show ?thesis
    by (cases r1) (auto simp: sendMessage_def Let_def split: prod.splits)
qed

lemma sendMessage_Inr:
  assumes "sendMessage e uid txt tok w = (Inr r, w')"
  shows "r = [] \<and> (\<exists>tm w0 final w1. postThinkingMessage e uid w = (tm, w0)
           \<and> sendMessage_try e uid txt tok w0 = (Inr final, w1)
           \<and> w' = (update_if_posted e tm final w1)
                  \<lparr>clock_reads := Suc (clock_reads (update_if_posted e tm final w1)),
                   activeConnections :=
                     AList.map_entry uid
                       (\<lambda>c. c\<lparr>lastActivity :=
                              Date_now e (clock_reads (update_if_posted e tm final w1))\<rparr>)
                       (activeConnections (update_if_posted e tm final w1))\<rparr>)"
proof -
  obtain tm w0 where p: "postThinkingMessage e uid w = (tm, w0)"
    by (cases "postThinkingMessage e uid w")
  obtain r1 w1 where t: "sendMessage_try e uid txt tok w0 = (r1, w1)"
    by (cases "sendMessage_try e uid txt tok w0")
  from assms p t show ?thesis
    by (cases r1) (auto simp: sendMessage_def now_read_def Let_def split: prod.splits)
qed

lemma sendMessage_failure_frame:
  assumes "sendMessage e uid txt tok w = (Inl err, w')"
  shows "userTokens w' = userTokens w
     \<and> (activeConnections w' = activeConnections w
        \<or> map_of (activeConnections w) uid = None
          \<and> (\<exists>c. activeConnections w' = activeConnections w @ [(uid, c)]))"
proof -
  from sendMessage_Inl [OF assms] obtain tm w0 w1 where
    p: "postThinkingMessage e uid w = (tm, w0)"
    and t: "sendMessage_try e uid txt tok w0 = (Inl err, w1)"
    and w': "w' = update_if_posted e tm errorApology w1"
    by blast
  from postThinkingMessage_effect [OF p] obtain calls where w0: "w0 = w\<lparr>slack_calls := calls\<rparr>"
    by blast
  from update_if_posted_effect [of e tm errorApology w1] w'
  obtain calls' where w1: "w' = w1\<lparr>slack_calls := calls'\<rparr>"
    by auto
  from sendMessage_try_effect [OF t] w0 w1 show ?thesis
    by (cases "map_of (activeConnections w) uid") auto
qed

lemma sendMessage_reuses_session:
  assumes "map_of (activeConnections w) uid = Some c"
  shows "started (snd (sendMessage e uid txt tok w)) = started w
     \<and> msal_requests (snd (sendMessage e uid txt tok w)) = msal_requests w
     \<and> (\<exists>rest. asked (snd (sendMessage e uid txt tok w))
                 = asked w @ (txt, conversationId c) # rest)"
proof -
  obtain r w' where s: "sendMessage e uid txt tok w = (r, w')"
    by (cases "sendMessage e uid txt tok w")
  obtain tm w0 where p: "postThinkingMessage e uid w = (tm, w0)"
    by (cases "postThinkingMessage e uid w")
  from postThinkingMessage_effect [OF p] obtain calls where w0: "w0 = w\<lparr>slack_calls := calls\<rparr>"
    by blast
  show ?thesis
  proof (cases r)
    case (Inl err)
    from sendMessage_Inl [OF s [unfolded Inl]] p obtain w1 where
      t: "sendMessage_try e uid txt tok w0 = (Inl err, w1)"
      and w': "w' = update_if_posted e tm errorApology w1"
      by auto
    from update_if_posted_effect [of e tm errorApology w1] w'
    obtain calls' where w1: "w' = w1\<lparr>slack_calls := calls'\<rparr>"
      by auto
    from sendMessage_try_effect [OF t] w0 w1 assms s show ?thesis
      by auto
  next
    case (Inr x)
    from sendMessage_Inr [OF s [unfolded Inr]] p obtain final w1 where
      t: "sendMessage_try e uid txt tok w0 = (Inr final, w1)"
      and w': "started w' = started (update_if_posted e tm final w1)"
        "msal_requests w' = msal_requests (update_if_posted e tm final w1)"
        "asked w' = asked (update_if_posted e tm final w1)"
      by auto
    from update_if_posted_effect [of e tm final w1]
    obtain calls' where w1: "update_if_posted e tm final w1 = w1\<lparr>slack_calls := calls'\<rparr>"
      by auto
    from sendMessage_try_effect [OF t] w0 w1 w' assms s show ?thesis
      by auto
  qed
qed

lemma postThinkingMessage_fields:
  "activeConnections (snd (postThinkingMessage e uid w)) = activeConnections w"
  "serviceTokenCache (snd (postThinkingMessage e uid w)) = serviceTokenCache w"
  "clock_reads (snd (postThinkingMessage e uid w)) = clock_reads w"
  "msal_requests (snd (postThinkingMessage e uid w)) = msal_requests w"
  "started (snd (postThinkingMessage e uid w)) = started w"
  "asked (snd (postThinkingMessage e uid w)) = asked w"
  by (simp_all add: postThinkingMessage_def Let_def split: sum.split)

lemma update_if_posted_fields:
  "activeConnections (update_if_posted e tm txt w) = activeConnections w"
  "started (update_if_posted e tm txt w) = started w"
  "asked (update_if_posted e tm txt w) = asked w"
  by (simp_all add: update_if_posted_def updateThinkingMessage_def Let_def split: option.split)

lemma createUserConnection_outcome:
  "map_of (activeConnections w) uid = None \<Longrightarrow>
   fst (createUserConnection e uid tok w) = session_outcome e uid tok w"
  by (auto simp: createUserConnection_def session_outcome_def credential_outcome_def
      getServiceToken_def createAgentsConnection_def now_read_def Let_def
      split: sum.splits option.splits prod.splits if_splits)

lemma createUserConnection_started:
  "started (snd (createUserConnection e uid tok w)) =
     (case credential_outcome e tok w of Inl err \<Rightarrow> started w | Inr t \<Rightarrow> started w @ [t])"
  by (auto simp: createUserConnection_def credential_outcome_def
      getServiceToken_def createAgentsConnection_def now_read_def Let_def
      split: sum.splits option.splits prod.splits if_splits)

lemma session_outcome_Inl:
  "session_outcome e uid tok w = Inl err \<Longrightarrow> map_of (activeConnections w) uid = None"
  by (simp add: session_outcome_def split: option.splits)

lemma credential_outcome_postThinkingMessage:
  "credential_outcome e tok (snd (postThinkingMessage e' uid' w)) = credential_outcome e tok w"
  by (simp add: credential_outcome_def postThinkingMessage_fields)

lemma session_outcome_postThinkingMessage:
  "session_outcome e uid tok (snd (postThinkingMessage e' uid' w)) = session_outcome e uid tok w"
  by (simp add: session_outcome_def credential_outcome_postThinkingMessage
      postThinkingMessage_fields split: option.split sum.split)

lemma sendMessage_try_no_session:
  assumes "session_outcome e uid tok w = Inl err"
  shows "fst (sendMessage_try e uid msg tok w) = Inl err"
    and "activeConnections (snd (sendMessage_try e uid msg tok w)) = activeConnections w"
    and "asked (snd (sendMessage_try e uid msg tok w)) = asked w"
    and "started (snd (sendMessage_try e uid msg tok w)) =
           (case credential_outcome e tok w of
              Inl err' \<Rightarrow> started w
            | Inr t \<Rightarrow> started w @ [t])"
proof -
  from session_outcome_Inl [OF assms] have n: "map_of (activeConnections w) uid = None" .
  obtain r1 w1 where c: "createUserConnection e uid tok w = (r1, w1)"
    by (cases "createUserConnection e uid tok w")
  from createUserConnection_outcome [OF n, of e tok] c assms have r1: "r1 = Inl err"
    by simp
  from n c r1 have t: "sendMessage_try e uid msg tok w = (Inl err, w1)"
    by (simp add: sendMessage_try_def)
  from createUserConnection_effect [OF c] r1 t
  show "fst (sendMessage_try e uid msg tok w) = Inl err"
    and "activeConnections (snd (sendMessage_try e uid msg tok w)) = activeConnections w"
    and "asked (snd (sendMessage_try e uid msg tok w)) = asked w"
    by simp_all
  from createUserConnection_started [of e uid tok w] c t
  show "started (snd (sendMessage_try e uid msg tok w)) =
           (case credential_outcome e tok w of
              Inl err' \<Rightarrow> started w
            | Inr t \<Rightarrow> started w @ [t])"
    by simp
qed

text \<open>The state in which the question of the turn is sent.\<close>

lemma sendMessage_try_session:
  assumes "session_outcome e uid tok w = Inr c"
  obtains w1 where
    "(case map_of (activeConnections w) uid of
        Some conn \<Rightarrow> (Inr conn, w)
      | None \<Rightarrow> createUserConnection e uid tok w) = (Inr c, w1)"
    and "asked w1 = asked w"
    and "userTokens w1 = userTokens w"
    and "activeConnections w1 =
           (if map_of (activeConnections w) uid = None then activeConnections w @ [(uid, c)]
            else activeConnections w)"
    and "map_of (activeConnections w1) uid = Some c"
proof (cases "map_of (activeConnections w) uid")
  case None
  obtain r1 w1 where cr: "createUserConnection e uid tok w = (r1, w1)"
    by (cases "createUserConnection e uid tok w")
  from createUserConnection_outcome [OF None, of e tok] cr assms have r1: "r1 = Inr c"
    by simp
  from createUserConnection_effect [OF cr] r1 None
  have "asked w1 = asked w" "userTokens w1 = userTokens w"
    "activeConnections w1 = activeConnections w @ [(uid, c)]"
    by (simp_all add: update_absent)
  with None cr r1 that [of w1] show ?thesis
    by (simp add: map_add_def)
next
  case (Some conn)
  with assms have "conn = c" by (simp add: session_outcome_def)
  with Some that [of w] show ?thesis by simp
qed

lemma sendMessage_try_send_fails:
  assumes "session_outcome e uid tok w = Inr c"
    and "askQuestionAsync e (length (asked w)) = Inl err"
  shows "fst (sendMessage_try e uid msg tok w) = Inl err"
    and "activeConnections (snd (sendMessage_try e uid msg tok w)) =
           (if map_of (activeConnections w) uid = None then activeConnections w @ [(uid, c)]
            else activeConnections w)"
proof -
  from sendMessage_try_session [OF assms(1)] obtain w1 where
    s: "(case map_of (activeConnections w) uid of
        Some conn \<Rightarrow> (Inr conn, w)
      | None \<Rightarrow> createUserConnection e uid tok w) = (Inr c, w1)"
    and a: "asked w1 = asked w"
    and r: "activeConnections w1 =
           (if map_of (activeConnections w) uid = None then activeConnections w @ [(uid, c)]
            else activeConnections w)"
    by blast
  from s a assms(2) have "sendMessage_try e uid msg tok w =
      (Inl err, w1\<lparr>asked := asked w1 @ [(msg, conversationId c)]\<rparr>)"
    by (simp add: sendMessage_try_def askQuestion_def)
  with r show "fst (sendMessage_try e uid msg tok w) = Inl err"
    and "activeConnections (snd (sendMessage_try e uid msg tok w)) =
           (if map_of (activeConnections w) uid = None then activeConnections w @ [(uid, c)]
            else activeConnections w)"
    by simp_all
qed

lemma finalResponse_resend_fails:
  assumes "trim (join_space (texts replies)) = []"
    and "filter is_consent replies \<noteq> []"
    and "map_of (activeConnections w) uid = Some c"
    and "askQuestionAsync e (length (asked w)) = Inl err"
  shows "fst (finalResponse e uid replies w) = Inl err"
    and "activeConnections (snd (finalResponse e uid replies w)) = activeConnections w"
proof -
  from assms(2) obtain cc where cc: "last_option (filter is_consent replies) = Some cc"
    by (simp add: last_option_def)
  from assms(3,4) have h: "handleConsentCardResponse e cc (Some uid) w =
      (Inl err, w\<lparr>asked := asked w @ [(consentPayload, conversationId c)]\<rparr>)"
    by (simp add: handleConsentCardResponse_found [of _ _ c] lookup_connection_def)
  from assms(1) cc h show "fst (finalResponse e uid replies w) = Inl err"
    and "activeConnections (snd (finalResponse e uid replies w)) = activeConnections w"
    by (simp_all add: finalResponse_def classify_captures trim_responseText)
qed

lemma sendMessage_try_resend_fails:
  assumes "session_outcome e uid tok w = Inr c"
    and "askQuestionAsync e (length (asked w)) = Inr replies"
    and "trim (join_space (texts replies)) = []"
    and "filter is_consent replies \<noteq> []"
    and "askQuestionAsync e (Suc (length (asked w))) = Inl err"
  shows "fst (sendMessage_try e uid msg tok w) = Inl err"
    and "activeConnections (snd (sendMessage_try e uid msg tok w)) =
           (if map_of (activeConnections w) uid = None then activeConnections w @ [(uid, c)]
            else activeConnections w)"
proof -
  from sendMessage_try_session [OF assms(1)] obtain w1 where
    s: "(case map_of (activeConnections w) uid of
        Some conn \<Rightarrow> (Inr conn, w)
      | None \<Rightarrow> createUserConnection e uid tok w) = (Inr c, w1)"
    and a: "asked w1 = asked w"
    and r: "activeConnections w1 =
           (if map_of (activeConnections w) uid = None then activeConnections w @ [(uid, c)]
            else activeConnections w)"
    and m: "map_of (activeConnections w1) uid = Some c"
    by blast
  define w2 where "w2 = w1\<lparr>asked := asked w1 @ [(msg, conversationId c)]\<rparr>"
  from s a assms(2) have t: "sendMessage_try e uid msg tok w = finalResponse e uid replies w2"
    by (simp add: sendMessage_try_def askQuestion_def w2_def)
  have "map_of (activeConnections w2) uid = Some c"
    "askQuestionAsync e (length (asked w2)) = Inl err"
    "activeConnections w2 = activeConnections w1"
    using m a assms(5) by (simp_all add: w2_def)
  with finalResponse_resend_fails [OF assms(3,4), of w2 uid c e err] t r
  show "fst (sendMessage_try e uid msg tok w) = Inl err"
    and "activeConnections (snd (sendMessage_try e uid msg tok w)) =
           (if map_of (activeConnections w) uid = None then activeConnections w @ [(uid, c)]
            else activeConnections w)"
    by simp_all
qed

text \<open>The \<^verbatim>\<open>catch\<close> block throws the error of the \<^verbatim>\<open>try\<close> block again.\<close>

lemma sendMessage_failure_lift:
  assumes "fst (sendMessage_try e uid msg tok (snd (postThinkingMessage e uid w))) = Inl err"
  shows "fst (sendMessage e uid msg tok w) = Inl err"
    and "activeConnections (snd (sendMessage e uid msg tok w)) =
           activeConnections (snd (sendMessage_try e uid msg tok (snd (postThinkingMessage e uid w))))"
    and "asked (snd (sendMessage e uid msg tok w)) =
           asked (snd (sendMessage_try e uid msg tok (snd (postThinkingMessage e uid w))))"
    and "started (snd (sendMessage e uid msg tok w)) =
           started (snd (sendMessage_try e uid msg tok (snd (postThinkingMessage e uid w))))"
proof -
  obtain tm w0 where p: "postThinkingMessage e uid w = (tm, w0)"
    by (cases "postThinkingMessage e uid w")
  obtain r1 w1 where t: "sendMessage_try e uid msg tok w0 = (r1, w1)"
    by (cases "sendMessage_try e uid msg tok w0")
  from assms p t have r1: "r1 = Inl err" by simp
  from p t r1 have s: "sendMessage e uid msg tok w = (Inl err, update_if_posted e tm errorApology w1)"
    by (simp add: sendMessage_def)
  from s p t
  show "fst (sendMessage e uid msg tok w) = Inl err"
    and "activeConnections (snd (sendMessage e uid msg tok w)) =
           activeConnections (snd (sendMessage_try e uid msg tok (snd (postThinkingMessage e uid w))))"
    and "asked (snd (sendMessage e uid msg tok w)) =
           asked (snd (sendMessage_try e uid msg tok (snd (postThinkingMessage e uid w))))"
    and "started (snd (sendMessage e uid msg tok w)) =
           started (snd (sendMessage_try e uid msg tok (snd (postThinkingMessage e uid w))))"
    by (simp_all add: update_if_posted_fields)
qed

text \<open>
  C8. A failing turn returns one error and leaves the token store as it was; the
  registry is as it was, or, when the user had no session, has gained the session
  created in this turn and nothing else. Every failure of a step reaches the caller;
  the steps are named by the answers of the collaborators (\<open>session_outcome\<close>,
  \<open>credential_outcome\<close>).
  \<^item> When the turn obtains no session (the user has none, and the credential cannot be
    resolved or the conversation cannot be started, with the user's credential or with
    the service credential), that error is returned, the registry is unchanged and
    nothing is sent upstream; when it is the credential that fails, no conversation is
    started.
  \<^item> When the upstream send fails, for a user who had a session or for one whose session
    was created in this turn, that error is returned and the session is in the
    registry. A retried turn (in any environment, with any text and credential) then
    starts no conversation and sends its question on the conversation of that session.
  \<^item> When the send is answered with a consent request and no text, and the resend of
    the approval fails, that error is returned, the session being in the registry.
\<close>

theorem sendMessage_failure_propagated:
  "(sendMessage e uid msg tok w = (Inl err, w') \<longrightarrow>
      userTokens w' = userTokens w
      \<and> (activeConnections w' = activeConnections w
         \<or> map_of (activeConnections w) uid = None
           \<and> (\<exists>c. activeConnections w' = activeConnections w @ [(uid, c)])))
   \<and> (session_outcome e uid tok w = Inl err1 \<longrightarrow>
      fst (sendMessage e uid msg tok w) = Inl err1
      \<and> activeConnections (snd (sendMessage e uid msg tok w)) = activeConnections w
      \<and> asked (snd (sendMessage e uid msg tok w)) = asked w)
   \<and> (map_of (activeConnections w) uid = None \<and> credential_outcome e tok w = Inl err4 \<longrightarrow>
      fst (sendMessage e uid msg tok w) = Inl err4
      \<and> started (snd (sendMessage e uid msg tok w)) = started w)
   \<and> (session_outcome e uid tok w = Inr c
        \<and> askQuestionAsync e (length (asked w)) = Inl err2 \<longrightarrow>
      fst (sendMessage e uid msg tok w) = Inl err2
      \<and> activeConnections (snd (sendMessage e uid msg tok w)) =
          (if map_of (activeConnections w) uid = None then activeConnections w @ [(uid, c)]
           else activeConnections w)
      \<and> started (snd (sendMessage e2 uid msg2 tok2 (snd (sendMessage e uid msg tok w))))
          = started (snd (sendMessage e uid msg tok w))
      \<and> (\<exists>rest. asked (snd (sendMessage e2 uid msg2 tok2 (snd (sendMessage e uid msg tok w))))
                  = asked (snd (sendMessage e uid msg tok w)) @ (msg2, conversationId c) # rest))
   \<and> (session_outcome e uid tok w = Inr c
        \<and> askQuestionAsync e (length (asked w)) = Inr replies
        \<and> trim (join_space (texts replies)) = [] \<and> filter is_consent replies \<noteq> []
        \<and> askQuestionAsync e (Suc (length (asked w))) = Inl err3 \<longrightarrow>
      fst (sendMessage e uid msg tok w) = Inl err3
      \<and> activeConnections (snd (sendMessage e uid msg tok w)) =
          (if map_of (activeConnections w) uid = None then activeConnections w @ [(uid, c)]
           else activeConnections w))"
proof (intro conjI impI)
  assume "sendMessage e uid msg tok w = (Inl err, w')"
  from sendMessage_failure_frame [OF this]
  show "userTokens w' = userTokens w"
    and "activeConnections w' = activeConnections w
         \<or> map_of (activeConnections w) uid = None
           \<and> (\<exists>c. activeConnections w' = activeConnections w @ [(uid, c)])"
    by simp_all
next
  let ?w0 = "snd (postThinkingMessage e uid w)"
  assume "session_outcome e uid tok w = Inl err1"
  then have o: "session_outcome e uid tok ?w0 = Inl err1"
    by (simp add: session_outcome_postThinkingMessage)
  note t = sendMessage_try_no_session [OF o, of msg]
  from sendMessage_failure_lift [OF t(1)] t(2,3)
  show "fst (sendMessage e uid msg tok w) = Inl err1"
    and "activeConnections (snd (sendMessage e uid msg tok w)) = activeConnections w"
    and "asked (snd (sendMessage e uid msg tok w)) = asked w"
    by (simp_all add: postThinkingMessage_fields)
next
  let ?w0 = "snd (postThinkingMessage e uid w)"
  assume a: "map_of (activeConnections w) uid = None \<and> credential_outcome e tok w = Inl err4"
  then have "session_outcome e uid tok w = Inl err4"
    by (simp add: session_outcome_def)
  then have o: "session_outcome e uid tok ?w0 = Inl err4"
    by (simp add: session_outcome_postThinkingMessage)
  from a have co: "credential_outcome e tok ?w0 = Inl err4"
    by (simp add: credential_outcome_postThinkingMessage)
  note t = sendMessage_try_no_session [OF o, of msg]
  from sendMessage_failure_lift [OF t(1)] t(4) co
  show "fst (sendMessage e uid msg tok w) = Inl err4"
    and "started (snd (sendMessage e uid msg tok w)) = started w"
    by (simp_all add: postThinkingMessage_fields)
next
  let ?w0 = "snd (postThinkingMessage e uid w)"
  assume a: "session_outcome e uid tok w = Inr c
        \<and> askQuestionAsync e (length (asked w)) = Inl err2"
  then have o: "session_outcome e uid tok ?w0 = Inr c"
    and q: "askQuestionAsync e (length (asked ?w0)) = Inl err2"
    by (simp_all add: session_outcome_postThinkingMessage postThinkingMessage_fields)
  note t = sendMessage_try_send_fails [OF o q, of msg]
  from sendMessage_failure_lift [OF t(1)] t(2)
  show 1: "fst (sendMessage e uid msg tok w) = Inl err2"
    and 2: "activeConnections (snd (sendMessage e uid msg tok w)) =
          (if map_of (activeConnections w) uid = None then activeConnections w @ [(uid, c)]
           else activeConnections w)"
    by (simp_all add: postThinkingMessage_fields)
  from a have "map_of (activeConnections w) uid \<noteq> None \<Longrightarrow> map_of (activeConnections w) uid = Some c"
    by (auto simp: session_outcome_def)
  with 2 have m: "map_of (activeConnections (snd (sendMessage e uid msg tok w))) uid = Some c"
    by (simp add: map_add_def)
  from sendMessage_reuses_session [OF m, of e2 msg2 tok2]
  show "started (snd (sendMessage e2 uid msg2 tok2 (snd (sendMessage e uid msg tok w))))
          = started (snd (sendMessage e uid msg tok w))"
    and "\<exists>rest. asked (snd (sendMessage e2 uid msg2 tok2 (snd (sendMessage e uid msg tok w))))
                  = asked (snd (sendMessage e uid msg tok w)) @ (msg2, conversationId c) # rest"
    by simp_all
next
  let ?w0 = "snd (postThinkingMessage e uid w)"
  assume a: "session_outcome e uid tok w = Inr c
        \<and> askQuestionAsync e (length (asked w)) = Inr replies
        \<and> trim (join_space (texts replies)) = [] \<and> filter is_consent replies \<noteq> []
        \<and> askQuestionAsync e (Suc (length (asked w))) = Inl err3"
  then have o: "session_outcome e uid tok ?w0 = Inr c"
    and q: "askQuestionAsync e (length (asked ?w0)) = Inr replies"
    and q2: "askQuestionAsync e (Suc (length (asked ?w0))) = Inl err3"
    and tr: "trim (join_space (texts replies)) = []" and co: "filter is_consent replies \<noteq> []"
    by (simp_all add: session_outcome_postThinkingMessage postThinkingMessage_fields)
  note t = sendMessage_try_resend_fails [OF o q tr co q2, of msg]
  from sendMessage_failure_lift [OF t(1)] t(2)
  show "fst (sendMessage e uid msg tok w) = Inl err3"
    and "activeConnections (snd (sendMessage e uid msg tok w)) =
          (if map_of (activeConnections w) uid = None then activeConnections w @ [(uid, c)]
           else activeConnections w)"
    by (simp_all add: postThinkingMessage_fields)
qed

text \<open>
  The theorem at failing turns of the user \<open>u1\<close> at 1000 ms. Without a session and
  without a credential: while the identity provider is down, and while conversations
  cannot be started (the service credential \<open>svc2\<close> having been issued). With a session:
  while the upstream send fails, and while the resend of the consent approval fails.
  Without a session and with the credential \<open>t\<close> while the upstream send fails: the
  session on \<open>conv\<close> stays in the registry, and the retried turn starts no second
  conversation.
\<close>

theorem sendMessage_failure_propagated_witness:
  "fst (sendMessage ex_env_idp_down ''u1'' ''hi'' None ex_world) = Inl (Rejected ''idp down'')
   \<and> activeConnections (snd (sendMessage ex_env_idp_down ''u1'' ''hi'' None ex_world)) = []
   \<and> started (snd (sendMessage ex_env_idp_down ''u1'' ''hi'' None ex_world)) = []
   \<and> fst (sendMessage ex_env_start_fails ''u1'' ''hi'' None ex_world)
       = Inl (Rejected ''no conversation'')
   \<and> activeConnections (snd (sendMessage ex_env_start_fails ''u1'' ''hi'' None ex_world)) = []
   \<and> fst (sendMessage ex_env_send_fails ''u1'' ''hi'' None ex_world_u1)
       = Inl (Rejected ''send failed'')
   \<and> activeConnections (snd (sendMessage ex_env_send_fails ''u1'' ''hi'' None ex_world_u1))
       = [(''u1'', ex_conn 500 ''u1'')]
   \<and> fst (sendMessage ex_env_send_fails ''u1'' ''hi'' (Some ''t'') ex_world)
       = Inl (Rejected ''send failed'')
   \<and> userTokens (snd (sendMessage ex_env_send_fails ''u1'' ''hi'' (Some ''t'') ex_world)) = []
   \<and> activeConnections (snd (sendMessage ex_env_send_fails ''u1'' ''hi'' (Some ''t'') ex_world))
       = [(''u1'', \<lparr>client = ''t'', conversationId = Some ''conv'', lastActivity = 1000,
                    userId = ''u1''\<rparr>)]
   \<and> started (snd (sendMessage ex_env ''u1'' ''again'' None
         (snd (sendMessage ex_env_send_fails ''u1'' ''hi'' (Some ''t'') ex_world))))
       = started (snd (sendMessage ex_env_send_fails ''u1'' ''hi'' (Some ''t'') ex_world))
   \<and> fst (sendMessage ex_env_resend_fails ''u1'' ''hi'' None ex_world_u1)
       = Inl (Rejected ''resend failed'')"
proof -
  define c1 where "c1 = \<lparr>client = ''t'', conversationId = Some ''conv'', lastActivity = 1000,
                    userId = ''u1''\<rparr>"
  have idp: "session_outcome ex_env_idp_down ''u1'' None ex_world = Inl (Rejected ''idp down'')"
    by (simp add: session_outcome_def credential_outcome_def ex_world_def ex_env_idp_down_def
        ex_env_def truthy_def cache_valid_def)
  have idp2: "map_of (activeConnections ex_world) ''u1'' = None
      \<and> credential_outcome ex_env_idp_down None ex_world = Inl (Rejected ''idp down'')"
    by (simp add: credential_outcome_def ex_world_def ex_env_idp_down_def
        ex_env_def truthy_def cache_valid_def)
  have start: "session_outcome ex_env_start_fails ''u1'' None ex_world
      = Inl (Rejected ''no conversation'')"
    by (simp add: session_outcome_def credential_outcome_def ex_world_def ex_env_start_fails_def
        ex_env_def truthy_def cache_valid_def)
  have old: "session_outcome ex_env_send_fails ''u1'' None ex_world_u1 = Inr (ex_conn 500 ''u1'')
      \<and> askQuestionAsync ex_env_send_fails (length (asked ex_world_u1))
            = Inl (Rejected ''send failed'')"
    by (simp add: session_outcome_def ex_world_u1_def ex_world_def ex_env_send_fails_def
        ex_env_def)
  have new: "session_outcome ex_env_send_fails ''u1'' (Some ''t'') ex_world = Inr c1
      \<and> askQuestionAsync ex_env_send_fails (length (asked ex_world))
            = Inl (Rejected ''send failed'')"
    by (simp add: session_outcome_def credential_outcome_def ex_world_def ex_env_send_fails_def
        ex_env_def truthy_def c1_def)
  have resend: "session_outcome ex_env_resend_fails ''u1'' None ex_world_u1
        = Inr (ex_conn 500 ''u1'')
      \<and> askQuestionAsync ex_env_resend_fails (length (asked ex_world_u1)) = Inr [ex_consent]
      \<and> trim (join_space (texts [ex_consent])) = [] \<and> filter is_consent [ex_consent] \<noteq> []
      \<and> askQuestionAsync ex_env_resend_fails (Suc (length (asked ex_world_u1)))
            = Inl (Rejected ''resend failed'')"
    by (simp add: session_outcome_def ex_world_u1_def ex_world_def ex_env_resend_fails_def
        ex_env_def texts_def is_consent_def is_text_message_def trim_def ex_consent_def
        consentCardName_def truthy_def)
  note t1 = sendMessage_failure_propagated
    [where e = ex_env_idp_down and uid = "''u1''" and msg = "''hi''" and tok = None
       and w = ex_world and ?err1.0 = "Rejected ''idp down''"
       and ?err4.0 = "Rejected ''idp down''"]
  note t2 = sendMessage_failure_propagated
    [where e = ex_env_start_fails and uid = "''u1''" and msg = "''hi''" and tok = None
       and w = ex_world and ?err1.0 = "Rejected ''no conversation''"]
  note t3 = sendMessage_failure_propagated
    [where e = ex_env_send_fails and uid = "''u1''" and msg = "''hi''" and tok = None
       and w = ex_world_u1 and c = "ex_conn 500 ''u1''" and ?err2.0 = "Rejected ''send failed''"]
  note t4 = sendMessage_failure_propagated
    [where e = ex_env_send_fails and uid = "''u1''" and msg = "''hi''" and tok = "Some ''t''"
       and w = ex_world and c = c1 and ?err2.0 = "Rejected ''send failed''"
       and err = "Rejected ''send failed''"
       and w' = "snd (sendMessage ex_env_send_fails ''u1'' ''hi'' (Some ''t'') ex_world)"
       and ?e2.0 = ex_env and ?msg2.0 = "''again''" and ?tok2.0 = None]
  note t5 = sendMessage_failure_propagated
    [where e = ex_env_resend_fails and uid = "''u1''" and msg = "''hi''" and tok = None
       and w = ex_world_u1 and c = "ex_conn 500 ''u1''" and replies = "[ex_consent]"
       and ?err3.0 = "Rejected ''resend failed''"]
  have a: "fst (sendMessage ex_env_idp_down ''u1'' ''hi'' None ex_world) = Inl (Rejected ''idp down'')"
    "activeConnections (snd (sendMessage ex_env_idp_down ''u1'' ''hi'' None ex_world)) = []"
    using t1 idp by (simp_all add: ex_world_def)
  have a2: "started (snd (sendMessage ex_env_idp_down ''u1'' ''hi'' None ex_world)) = []"
    using t1 idp2 by (simp add: ex_world_def)
  have b: "fst (sendMessage ex_env_start_fails ''u1'' ''hi'' None ex_world)
       = Inl (Rejected ''no conversation'')"
    "activeConnections (snd (sendMessage ex_env_start_fails ''u1'' ''hi'' None ex_world)) = []"
    using t2 start by (simp_all add: ex_world_def)
  have c: "fst (sendMessage ex_env_send_fails ''u1'' ''hi'' None ex_world_u1)
       = Inl (Rejected ''send failed'')"
    "activeConnections (snd (sendMessage ex_env_send_fails ''u1'' ''hi'' None ex_world_u1))
       = [(''u1'', ex_conn 500 ''u1'')]"
    using t3 old by (simp_all add: ex_world_u1_def ex_world_def)
  have d1: "fst (sendMessage ex_env_send_fails ''u1'' ''hi'' (Some ''t'') ex_world)
       = Inl (Rejected ''send failed'')"
    using t4 new by simp
  have d2: "activeConnections (snd (sendMessage ex_env_send_fails ''u1'' ''hi'' (Some ''t'') ex_world))
       = [(''u1'', c1)]"
    using t4 new by (simp add: ex_world_def)
  have d3: "started (snd (sendMessage ex_env ''u1'' ''again'' None
         (snd (sendMessage ex_env_send_fails ''u1'' ''hi'' (Some ''t'') ex_world))))
       = started (snd (sendMessage ex_env_send_fails ''u1'' ''hi'' (Some ''t'') ex_world))"
    using t4 new by simp
  obtain r4 w4 where s4: "sendMessage ex_env_send_fails ''u1'' ''hi'' (Some ''t'') ex_world = (r4, w4)"
    by (cases "sendMessage ex_env_send_fails ''u1'' ''hi'' (Some ''t'') ex_world")
  with d1 have r4: "r4 = Inl (Rejected ''send failed'')" by simp
  have d4: "userTokens (snd (sendMessage ex_env_send_fails ''u1'' ''hi'' (Some ''t'') ex_world)) = []"
    using t4 s4 r4 by (simp add: ex_world_def)
  have f: "fst (sendMessage ex_env_resend_fails ''u1'' ''hi'' None ex_world_u1)
       = Inl (Rejected ''resend failed'')"
    using t5 resend by simp
  from a a2 b c d1 d2 d3 d4 f show ?thesis by (simp add: c1_def)
qed

section \<open>One session per user\<close>

lemma distinct_update_keys:
  "distinct (map fst al) \<Longrightarrow> distinct (map fst (AList.update k v al))"
  by (simp add: distinct_update)

lemma createUserConnection_distinct:
  assumes "distinct (map fst (activeConnections w))"
  shows "distinct (map fst (activeConnections (snd (createUserConnection e uid tok w))))"
proof -
  obtain r w' where c: "createUserConnection e uid tok w = (r, w')"
    by (cases "createUserConnection e uid tok w")
  from createUserConnection_effect [OF c] assms show ?thesis
    by (cases r) (simp_all add: c distinct_update)
qed

lemma sweep_connections_distinct:
  "distinct (map fst conns) \<Longrightarrow> distinct (map fst (sweep_connections now maxAge conns))"
  by (simp add: sweep_connections_filter distinct_map_filter)

lemma sendMessage_distinct:
  assumes "distinct (map fst (activeConnections w))"
  shows "distinct (map fst (activeConnections (snd (sendMessage e uid txt tok w))))"
proof -
  obtain r w' where s: "sendMessage e uid txt tok w = (r, w')"
    by (cases "sendMessage e uid txt tok w")
  obtain tm w0 where p: "postThinkingMessage e uid w = (tm, w0)"
    by (cases "postThinkingMessage e uid w")
  from postThinkingMessage_effect [OF p] obtain calls where w0: "w0 = w\<lparr>slack_calls := calls\<rparr>"
    by blast
  have try_distinct: "distinct (map fst (activeConnections w1))"
    if t: "sendMessage_try e uid txt tok w0 = (r1, w1)" for r1 w1
  proof (cases "map_of (activeConnections w) uid")
    case None
    then have "uid \<notin> fst ` set (activeConnections w)"
      by (simp add: map_of_eq_None_iff)
    with sendMessage_try_effect [OF t] w0 None assms show ?thesis
      by auto
  next
    case (Some c)
    with sendMessage_try_effect [OF t] w0 assms show ?thesis
      by auto
  qed
  show ?thesis
  proof (cases r)
    case (Inl err)
    from sendMessage_Inl [OF s [unfolded Inl]] p obtain w1 where
      t: "sendMessage_try e uid txt tok w0 = (Inl err, w1)"
      and w': "w' = update_if_posted e tm errorApology w1"
      by auto
    from try_distinct [OF t] w' s show ?thesis
      by (simp add: update_if_posted_fields)
  next
    case (Inr x)
    from sendMessage_Inr [OF s [unfolded Inr]] p obtain final w1 where
      t: "sendMessage_try e uid txt tok w0 = (Inr final, w1)"
      and w': "activeConnections w' =
                 AList.map_entry uid
                   (\<lambda>c. c\<lparr>lastActivity :=
                          Date_now e (clock_reads (update_if_posted e tm final w1))\<rparr>)
                   (activeConnections (update_if_posted e tm final w1))"
      by auto
    from try_distinct [OF t] w' s show ?thesis
      by (simp add: update_if_posted_fields distinct_map_entry)
  qed
qed

text \<open>
  Run one after the other, the operations keep at most one session per user id in the
  registry, and a turn of a user who has a session starts no conversation
  (\<open>sendMessage_reuses_session\<close>).
\<close>

lemma registry_keys_distinct:
  assumes "distinct (map fst (activeConnections w))"
  shows "distinct (map fst (activeConnections (snd (createUserConnection e uid tok w))))"
    and "distinct (map fst (activeConnections (snd (newConversation e uid w))))"
    and "distinct (map fst (activeConnections (snd (sendMessage e uid msg tok w))))"
    and "distinct (map fst (activeConnections (snd (clearUserConnection uid w))))"
    and "distinct (map fst (activeConnections (cleanup e w)))"
proof -
  note d = assms
  show "distinct (map fst (activeConnections (snd (createUserConnection e uid tok w))))"
    using d by (rule createUserConnection_distinct)
  show "distinct (map fst (activeConnections (snd (newConversation e uid w))))"
    unfolding newConversation_def
    by (rule createUserConnection_distinct) (simp add: d distinct_delete)
  show "distinct (map fst (activeConnections (snd (sendMessage e uid msg tok w))))"
    using d by (rule sendMessage_distinct)
  show "distinct (map fst (activeConnections (snd (clearUserConnection uid w))))"
    by (simp add: clearUserConnection_def d distinct_delete)
  show "distinct (map fst (activeConnections (cleanup e w)))"
    by (simp add: activeConnections_cleanup sweep_connections_distinct d)
qed

text \<open>The pieces of a turn, run one after the other, are the turn.\<close>

lemma sendMessage_try_pieces:
  "sendMessage_try e uid msg tok w =
     (case turn_connect e uid tok (turn_lookup uid w) w of
        (Inl err, w1) \<Rightarrow> (Inl err, w1)
      | (Inr conn, w1) \<Rightarrow> turn_send e uid msg conn w1)"
  unfolding sendMessage_try_def turn_connect_def turn_lookup_def turn_send_def
  by (rule refl)

text \<open>
  C6. At most one session is to exist per user id at every instant. Two turns of one
  user that overlap break this. In the schedule \<open>two_turns_interleaved\<close> the user \<open>u1\<close>
  has no session; both turns find none, and both start a conversation (\<open>conv0\<close> with
  the credential \<open>tA\<close>, \<open>conv1\<close> with \<open>tB\<close>). The session of turn B is written over the
  session of turn A, which is not invalidated: turn A sends its question on \<open>conv0\<close>
  when the registry holds the session on \<open>conv1\<close>, so two sessions of \<open>u1\<close> are in use at
  once. The same two turns run one after the other share the session on \<open>conv0\<close>.
\<close>

theorem two_turns_interleaved_two_sessions:
  "turn_lookup ''u1'' ex_world = None
   \<and> fst (two_turns_interleaved ex_env_two ''u1'' ''a'' (Some ''tA'') ''b'' (Some ''tB'') ex_world)
       = Some (\<lparr>client = ''tA'', conversationId = Some ''conv0'', lastActivity = 1000,
                 userId = ''u1''\<rparr>,
               \<lparr>client = ''tB'', conversationId = Some ''conv1'', lastActivity = 1001,
                 userId = ''u1''\<rparr>)
   \<and> started (snd (two_turns_interleaved ex_env_two ''u1'' ''a'' (Some ''tA'') ''b'' (Some ''tB'')
         ex_world)) = [''tA'', ''tB'']
   \<and> activeConnections (snd (two_turns_interleaved ex_env_two ''u1'' ''a'' (Some ''tA'') ''b''
         (Some ''tB'') ex_world))
       = [(''u1'', \<lparr>client = ''tB'', conversationId = Some ''conv1'', lastActivity = 1001,
                    userId = ''u1''\<rparr>)]
   \<and> asked (snd (two_turns_interleaved ex_env_two ''u1'' ''a'' (Some ''tA'') ''b'' (Some ''tB'')
         ex_world)) = [(''a'', Some ''conv0''), (''b'', Some ''conv1'')]
   \<and> started (snd (sendMessage_try ex_env_two ''u1'' ''b'' (Some ''tB'')
         (snd (sendMessage_try ex_env_two ''u1'' ''a'' (Some ''tA'') ex_world)))) = [''tA'']
   \<and> asked (snd (sendMessage_try ex_env_two ''u1'' ''b'' (Some ''tB'')
         (snd (sendMessage_try ex_env_two ''u1'' ''a'' (Some ''tA'') ex_world))))
       = [(''a'', Some ''conv0''), (''b'', Some ''conv0'')]"
  by (simp add: two_turns_interleaved_def turn_lookup_def turn_connect_def turn_send_def
      sendMessage_try_def
      createUserConnection_def createAgentsConnection_def askQuestion_def now_read_def
      finalResponse_def classify_def classify_step_def trim_def isWhiteSpace_def truthy_def
      Let_def ex_world_def ex_env_two_def ex_env_def ex_hello_def)

section \<open>The text returned by a turn\<close>

lemma sendMessage_try_slackClient:
  "sendMessage_try e uid msg tok w = (r, w') \<Longrightarrow> slackClient w' = slackClient w"
  by (drule sendMessage_try_effect) simp

text \<open>
  C4, as the code has it, for a successful turn whose thinking message was posted (the
  chat client answered with a non-empty \<open>ts\<close> and \<open>channel\<close>). The resolved reply \<open>final\<close>
  is handed to the chat client: the next call to the chat client updates the thinking
  message on that channel and \<open>ts\<close> with \<open>final\<close>, and posts \<open>final\<close> as a new message when
  the update is rejected. The text returned to the caller is empty. (A successful turn
  whose thinking message was not posted is not covered here.)
\<close>

theorem sendMessage_posted_reply:
  "postThinkingMessage e uid w = (Some tm, w0) \<and> ts tm \<noteq> [] \<and> channel tm \<noteq> []
     \<and> sendMessage_try e uid msg tok w0 = (Inr final, w1) \<longrightarrow>
   fst (sendMessage e uid msg tok w) = Inr []
   \<and> slack_calls (snd (sendMessage e uid msg tok w)) =
       slack_calls w1 @ Update (channel tm) (ts tm) final
         # (case chat_update e (length (slack_calls w1)) of
              None \<Rightarrow> []
            | Some err \<Rightarrow> [PostMessage (channel tm) final])"
proof (intro conjI impI)
  assume a: "postThinkingMessage e uid w = (Some tm, w0) \<and> ts tm \<noteq> [] \<and> channel tm \<noteq> []
        \<and> sendMessage_try e uid msg tok w0 = (Inr final, w1)"
  then have p: "postThinkingMessage e uid w = (Some tm, w0)"
    and t: "sendMessage_try e uid msg tok w0 = (Inr final, w1)"
    by simp_all
  from postThinkingMessage_effect [OF p] have "slackClient w0"
    by auto
  with sendMessage_try_slackClient [OF t] have c: "slackClient w1"
    by simp
  from a show "fst (sendMessage e uid msg tok w) = Inr []"
    by (simp add: sendMessage_def now_read_def Let_def)
  from a c show "slack_calls (snd (sendMessage e uid msg tok w)) =
          slack_calls w1 @ Update (channel tm) (ts tm) final
            # (case chat_update e (length (slack_calls w1)) of
                 None \<Rightarrow> []
               | Some err \<Rightarrow> [PostMessage (channel tm) final])"
    by (simp add: sendMessage_def now_read_def update_if_posted_def updateThinkingMessage_def
        Let_def split: option.split)
qed

lemma ex_hello_turn:
  "postThinkingMessage ex_env_hello ''slack_U1'' ex_world
     = (Some \<lparr>ts = ''1.0'', channel = ''D1''\<rparr>,
        ex_world\<lparr>slack_calls := [PostMessage ''U1'' '':thinking_face: Thinking...'']\<rparr>)"
  "fst (sendMessage_try ex_env_hello ''slack_U1'' ''hi'' (Some ''t'')
          (ex_world\<lparr>slack_calls := [PostMessage ''U1'' '':thinking_face: Thinking...'']\<rparr>))
     = Inr ''Hello''"
  "slack_calls (snd (sendMessage_try ex_env_hello ''slack_U1'' ''hi'' (Some ''t'')
          (ex_world\<lparr>slack_calls := [PostMessage ''U1'' '':thinking_face: Thinking...'']\<rparr>)))
     = [PostMessage ''U1'' '':thinking_face: Thinking...'']"
  by (simp_all add: postThinkingMessage_def sendMessage_try_def createUserConnection_def
      createAgentsConnection_def askQuestion_def now_read_def finalResponse_def classify_def
      classify_step_def trim_def isWhiteSpace_def truthy_def Let_def
      ex_world_def ex_env_hello_def ex_env_def ex_hello_def)

text \<open>
  The theorem at a turn of the user \<open>slack_U1\<close> with the credential \<open>t\<close>, in an
  environment whose upstream answers \<open>Hello\<close>: the thinking message is posted on the
  channel \<open>U1\<close>, the reply \<open>Hello\<close> is written into it, and the empty text is returned.
\<close>

theorem sendMessage_posted_reply_witness:
  "fst (sendMessage ex_env_hello ''slack_U1'' ''hi'' (Some ''t'') ex_world) = Inr []
   \<and> slack_calls (snd (sendMessage ex_env_hello ''slack_U1'' ''hi'' (Some ''t'') ex_world))
       = [PostMessage ''U1'' '':thinking_face: Thinking...'', Update ''D1'' ''1.0'' ''Hello'']"
proof -
  obtain r1 w1 where t0: "sendMessage_try ex_env_hello ''slack_U1'' ''hi'' (Some ''t'')
          (ex_world\<lparr>slack_calls := [PostMessage ''U1'' '':thinking_face: Thinking...'']\<rparr>)
     = (r1, w1)"
    by (cases "sendMessage_try ex_env_hello ''slack_U1'' ''hi'' (Some ''t'')
          (ex_world\<lparr>slack_calls := [PostMessage ''U1'' '':thinking_face: Thinking...'']\<rparr>)")
  from ex_hello_turn(2,3) have r1: "r1 = Inr ''Hello''"
    and sc: "slack_calls w1 = [PostMessage ''U1'' '':thinking_face: Thinking...'']"
    unfolding t0 by simp_all
  have u: "chat_update ex_env_hello n = None" for n
    by (simp add: ex_env_hello_def ex_env_def)
  have h: "postThinkingMessage ex_env_hello ''slack_U1'' ex_world
        = (Some \<lparr>ts = ''1.0'', channel = ''D1''\<rparr>,
           ex_world\<lparr>slack_calls := [PostMessage ''U1'' '':thinking_face: Thinking...'']\<rparr>)
      \<and> ts \<lparr>ts = ''1.0'', channel = ''D1''\<rparr> \<noteq> []
      \<and> channel \<lparr>ts = ''1.0'', channel = ''D1''\<rparr> \<noteq> []
      \<and> sendMessage_try ex_env_hello ''slack_U1'' ''hi'' (Some ''t'')
          (ex_world\<lparr>slack_calls := [PostMessage ''U1'' '':thinking_face: Thinking...'']\<rparr>)
        = (Inr ''Hello'', w1)"
    using ex_hello_turn(1) t0 r1 by simp
  note inst = sendMessage_posted_reply
    [where e = ex_env_hello and uid = "''slack_U1''" and msg = "''hi''" and tok = "Some ''t''"
       and w = ex_world and tm = "\<lparr>ts = ''1.0'', channel = ''D1''\<rparr>"
       and ?w0.0 = "ex_world\<lparr>slack_calls := [PostMessage ''U1'' '':thinking_face: Thinking...'']\<rparr>"
       and final = "''Hello''" and ?w1.0 = w1]
  from inst h show ?thesis
    by (simp add: u sc)
qed

text \<open>
  C4 as stated fails on the same turn: the thinking message is posted, the resolved
  reply is \<open>Hello\<close>, and what \<open>sendMessage\<close> returns to its caller is the empty text.
\<close>

theorem sendMessage_reply_not_returned_counterexample:
  "fst (postThinkingMessage ex_env_hello ''slack_U1'' ex_world)
     = Some \<lparr>ts = ''1.0'', channel = ''D1''\<rparr>
   \<and> fst (sendMessage_try ex_env_hello ''slack_U1'' ''hi'' (Some ''t'')
          (snd (postThinkingMessage ex_env_hello ''slack_U1'' ex_world)))
     = Inr ''Hello''
   \<and> fst (sendMessage ex_env_hello ''slack_U1'' ''hi'' (Some ''t'') ex_world) = Inr []
   \<and> fst (sendMessage ex_env_hello ''slack_U1'' ''hi'' (Some ''t'') ex_world) \<noteq> Inr ''Hello''"
proof -
  obtain r1 w1 where t0: "sendMessage_try ex_env_hello ''slack_U1'' ''hi'' (Some ''t'')
          (ex_world\<lparr>slack_calls := [PostMessage ''U1'' '':thinking_face: Thinking...'']\<rparr>)
     = (r1, w1)"
    by (cases "sendMessage_try ex_env_hello ''slack_U1'' ''hi'' (Some ''t'')
          (ex_world\<lparr>slack_calls := [PostMessage ''U1'' '':thinking_face: Thinking...'']\<rparr>)")
  from ex_hello_turn(2) have r1: "r1 = Inr ''Hello''"
    unfolding t0 by simp
  have 0: "fst (postThinkingMessage ex_env_hello ''slack_U1'' ex_world)
     = Some \<lparr>ts = ''1.0'', channel = ''D1''\<rparr>"
    by (simp add: ex_hello_turn(1))
  have 1: "fst (sendMessage_try ex_env_hello ''slack_U1'' ''hi'' (Some ''t'')
          (snd (postThinkingMessage ex_env_hello ''slack_U1'' ex_world))) = Inr ''Hello''"
    by (simp add: ex_hello_turn(1) t0 r1)
  have 2: "fst (sendMessage ex_env_hello ''slack_U1'' ''hi'' (Some ''t'') ex_world) = Inr []"
    by (simp add: sendMessage_def ex_hello_turn(1) t0 r1 now_read_def Let_def)
  from 0 1 2 show ?thesis
    by simp
qed

section \<open>Consent sub-protocol: at most one resend in a turn\<close>

text \<open>
  C10. The nested invocation is made without a user id: it finds no connection and
  returns, leaving the state as it was, so nothing is sent and nothing is raised. Hence
  one run of the sub-protocol sends at most one question upstream: either none (no
  connection for the user) or exactly the consent approval, on the conversation of the
  user's session. The resolution of the replies of a turn runs the sub-protocol at most
  once, so it sends at most one question as well.
\<close>

theorem handleConsentCardResponse_at_most_one_resend:
  "handleConsentCardResponse e nested None w = (Inr (), w)
   \<and> asked (snd (handleConsentCardResponse e act uid w)) =
       (case lookup_connection w uid of
          None \<Rightarrow> asked w
        | Some conn \<Rightarrow> asked w @ [(consentPayload, conversationId conn)])
   \<and> length (asked (snd (handleConsentCardResponse e act uid w))) \<le> Suc (length (asked w))
   \<and> length (asked (snd (finalResponse e u replies w))) \<le> Suc (length (asked w))"
proof (intro conjI)
  show "handleConsentCardResponse e nested None w = (Inr (), w)"
    by (rule handleConsentCardResponse_no_user)
  show "asked (snd (handleConsentCardResponse e act uid w)) =
       (case lookup_connection w uid of
          None \<Rightarrow> asked w
        | Some conn \<Rightarrow> asked w @ [(consentPayload, conversationId conn)])"
    by (rule handleConsentCardResponse_asked)
  then show "length (asked (snd (handleConsentCardResponse e act uid w))) \<le> Suc (length (asked w))"
    by (simp split: option.split)
  obtain r w' where f: "finalResponse e u replies w = (r, w')"
    by (cases "finalResponse e u replies w")
  from finalResponse_effect [OF f]
  have "asked w' = asked w \<or> (\<exists>q. asked w' = asked w @ [q])"
    by simp
  then show "length (asked (snd (finalResponse e u replies w))) \<le> Suc (length (asked w))"
    by (auto simp: f)
qed

end
